theory Spec2Isabelle
  imports Complex_Main
begin

section \<open>Quotation PDF resolution and regeneration\<close>

text \<open>
  The development embeds the quotation-PDF part of the server entry point: the
  interceptor \<open>quotationPDFInterceptor\<close> and the handler \<open>handleQuotationPDF\<close> with its
  cascade of database look-ups, the shaping of the data handed to the PDF service and
  the write-back of the \<open>quotationPdf\<close> field. The text of the entry point with these
  two functions is the second document of \<open>src/SMS_SETUP_GUIDE.md\<close> (the interceptor at
  lines 215 to 247, the handler at lines 393 to 635); an earlier form of the route, with
  the exact match as its only search, is the third document of that file.

  Conventions of the embedding.
  \<^item> JavaScript strings are \<open>string\<close>; file names are taken to be ASCII, and case
    folding (\<open>$options: 'i'\<close>) is ASCII case folding.
  \<^item> \<open>Date\<close> values and the numbers read by \<open>parseInt\<close> are \<open>int\<close> (epoch
    milliseconds). A \<open>Date\<close> is valid up to 8640000000000000 ms either side of the
    epoch; all integers of that size are exact as JavaScript numbers, and a number read
    from a longer run of digits, though rounded, stays beyond that bound, so that the
    validity of \<open>new Date(timestamp + 5000)\<close> is decided the same way on \<open>int\<close>.
    Prices and quantities (\<open>Number\<close>) are \<open>real\<close>; no arithmetic is done on them.
  \<^item> A field that may be \<open>undefined\<close> or \<open>null\<close> is an \<open>option\<close>.
  \<^item> The MongoDB collections are lists in natural order; \<open>findOne\<close> returns the first
    document that satisfies the filter.
  \<^item> Every database call is recorded in a log carried by the state, so that the calls
    a request makes can be counted.
\<close>

subsection \<open>Strings\<close>

definition backslash :: char where
  "backslash = CHR 0x5C"

definition isDigit :: "char \<Rightarrow> bool" where
  "isDigit c = (c \<in> set ''0123456789'')"

definition isHex :: "char \<Rightarrow> bool" where
  "isHex c = (c \<in> set ''0123456789abcdefABCDEF'')"

definition isAlnum :: "char \<Rightarrow> bool" where
  "isAlnum c = (c \<in> set
     ''0123456789abcdefghijklmnopqrstuvwxyzABCDEFGHIJKLMNOPQRSTUVWXYZ'')"

definition toLowerChar :: "char \<Rightarrow> char" where
  "toLowerChar c =
     (case map_of (zip ''ABCDEFGHIJKLMNOPQRSTUVWXYZ'' ''abcdefghijklmnopqrstuvwxyz'') c of
        Some l \<Rightarrow> l
      | None \<Rightarrow> c)"

definition toLowerCase :: "string \<Rightarrow> string" where
  "toLowerCase s = map toLowerChar s"

fun startsWith :: "string \<Rightarrow> string \<Rightarrow> bool" where
  "startsWith s [] = True"
| "startsWith [] (p # ps) = False"
| "startsWith (c # cs) (p # ps) = (c = p \<and> startsWith cs ps)"

fun includes_str :: "string \<Rightarrow> string \<Rightarrow> bool" where
  "includes_str [] p = startsWith [] p"
| "includes_str (c # cs) p = (startsWith (c # cs) p \<or> includes_str cs p)"

subsection \<open>The escaping of the file name and the pattern language\<close>

text \<open>
  \<^verbatim>\<open>filename.replace(/[.*+?^${}()|[\]\\]/g, '\\$&')\<close>: every character of the class is
  replaced by a backslash followed by itself; the other characters are kept.
\<close>

definition escaped_characters :: "char list" where
  "escaped_characters = ''.*+?^${}()|[]'' @ [backslash]"

definition escapeRegExp :: "string \<Rightarrow> string" where
  "escapeRegExp filename =
     concat (map (\<lambda>c. if c \<in> set escaped_characters then [backslash, c] else [c]) filename)"

text \<open>
  The pattern language of \<open>$regex\<close>, as far as the reading of a pattern goes. The characters
  with a syntactic role outside a character class are the fourteen syntax characters below
  (the set of ECMAScript, which contains that of PCRE). A backslash followed by a character
  that is neither a letter nor a digit denotes that character; followed by a letter or a
  digit it is an escape sequence with a meaning of its own (a class, an assertion, a
  back-reference); a pattern cannot end in a lone backslash.
\<close>

definition syntax_characters :: "char list" where
  "syntax_characters = ''^$'' @ [backslash] @ ''.*+?()[]{}|''"

datatype regex_token
  = Literal char
  | Operator char
  | EscapeSequence char
  | DanglingBackslash

fun tokenize :: "string \<Rightarrow> regex_token list" where
  "tokenize [] = []"
| "tokenize [c] =
     (if c = backslash then [DanglingBackslash]
      else if c \<in> set syntax_characters then [Operator c] else [Literal c])"
| "tokenize (c # d # ds) =
     (if c = backslash then (if isAlnum d then EscapeSequence d else Literal d) # tokenize ds
      else (if c \<in> set syntax_characters then Operator c else Literal c) # tokenize (d # ds))"

fun literal_of :: "regex_token list \<Rightarrow> string option" where
  "literal_of [] = Some []"
| "literal_of (Literal c # ts) = map_option ((#) c) (literal_of ts)"
| "literal_of (t # ts) = None"

text \<open>
  A pattern that reads as literals only matches, under option \<open>i\<close>, the strings that
  contain the literal up to case. The meaning of the other patterns is not part of the
  model (\<open>None\<close>).
\<close>

definition regex_test_i :: "string \<Rightarrow> string \<Rightarrow> bool option" where
  "regex_test_i pattern s =
     map_option (\<lambda>lit. includes_str (toLowerCase s) (toLowerCase lit)) (literal_of (tokenize pattern))"

subsection \<open>Documents (models/Quotation.js, models/Inquiry.js)\<close>

text \<open>
  The fields the handler reads or writes. \<open>_id\<close> is written \<open>quotation_id\<close> and
  \<open>inquiry_id\<close>: the 24-digit hexadecimal text that \<open>_id.toString()\<close> yields.
\<close>

record item =
  item_partRef :: "string option"
  item_material :: "string option"
  item_thickness :: "string option"
  item_grade :: "string option"
  item_quantity :: "real option"
  item_unitPrice :: "real option"
  item_totalPrice :: "real option"
  item_remark :: "string option"

datatype quotation_status
  = draft | created | uploaded | sent | accepted | rejected | order_created

record quotation =
  quotation_id :: string
  quotationNumber :: "string option"
  inquiryId :: string
  totalAmount :: real
  items :: "item list"
  quotationPdf :: "string option"
  status :: quotation_status
  validUntil :: "int option"
  terms :: "string option"
  createdAt :: int
  updatedAt :: int

record part =
  part_partRef :: "string option"
  part_material :: "string option"
  part_thickness :: "string option"
  part_grade :: "string option"
  part_quantity :: "real option"
  part_remarks :: "string option"
  part_price :: "real option"

record inquiry =
  inquiry_id :: string
  inquiryNumber :: string
  customer :: string
  parts :: "part list"

subsection \<open>The data handed to the PDF service\<close>

record pdf_part =
  partRef :: string
  material :: string
  thickness :: string
  quantity :: real
  price :: real
  remarks :: string

record pdfQuotationData =
  pdf_parts :: "pdf_part list"
  pdf_totalAmount :: real
  currency :: string
  pdf_validUntil :: int
  pdf_terms :: string

record pdfResult =
  fileName :: string
  filePath :: string

subsection \<open>What the model takes as given\<close>

text \<open>
  The PDF service (\<open>services/pdfService\<close>) is a parameter: from the inquiry, the data, the
  clock and the files it either throws (\<open>Inl\<close> the message) or returns its result with
  the files as it leaves them. So is the outcome of \<open>quotation.save()\<close>, which may reject
  the document (\<open>Some\<close> the message), and so are two functions of the database driver,
  whose reading of strings of twelve characters differs between its versions:
  \<open>mongoose.Types.ObjectId.isValid\<close> on a string, and the identifier a valid string
  denotes, in the lower-case hexadecimal form of \<open>toString()\<close>.
\<close>

record env =
  generateQuotationPDF ::
    "inquiry \<Rightarrow> pdfQuotationData \<Rightarrow> int \<Rightarrow> string set \<Rightarrow> string + pdfResult \<times> string set"
  saveError :: "quotation \<Rightarrow> string option"
  ObjectId_isValid :: "string \<Rightarrow> bool"
  castObjectId :: "string \<Rightarrow> string"

subsection \<open>The state: collections, files, clock and the record of calls\<close>

datatype quotation_filter
  = PdfEquals string
  | PdfRegex string
  | InquiryIdEquals string
  | CreatedAtBetween int int

datatype db_call
  = QuotationFindOne quotation_filter
  | QuotationFindOneNewest quotation_filter
  | InquiryFindOne string
  | InquiryFindById string
  | QuotationSave string

record world =
  quotations :: "quotation list"
  inquiries :: "inquiry list"
  files :: "string set"
  clock :: int
  queryLog :: "db_call list"
  builderLog :: "(inquiry \<times> pdfQuotationData) list"

definition logged :: "db_call \<Rightarrow> world \<Rightarrow> world" where
  "logged c w = w\<lparr>queryLog := queryLog w @ [c]\<rparr>"

fun matches :: "quotation_filter \<Rightarrow> quotation \<Rightarrow> bool" where
  "matches (PdfEquals f) q = (quotationPdf q = Some f)"
| "matches (PdfRegex p) q =
     (case quotationPdf q of None \<Rightarrow> False | Some s \<Rightarrow> regex_test_i p s = Some True)"
| "matches (InquiryIdEquals i) q = (inquiryId q = i)"
| "matches (CreatedAtBetween lo hi) q = (lo \<le> createdAt q \<and> createdAt q \<le> hi)"

text \<open>\<^verbatim>\<open>Quotation.findOne(filter)\<close>\<close>

definition Quotation_findOne :: "quotation_filter \<Rightarrow> world \<Rightarrow> quotation option \<times> world" where
  "Quotation_findOne f w = (find (matches f) (quotations w), logged (QuotationFindOne f) w)"

text \<open>
  \<^verbatim>\<open>Quotation.findOne(filter).sort({ createdAt: -1 })\<close>: the document with the greatest
  \<open>createdAt\<close> among those that satisfy the filter; among equal ones, the first in natural
  order.
\<close>

fun newest :: "quotation list \<Rightarrow> quotation option" where
  "newest [] = None"
| "newest (q # qs) =
     (case newest qs of
        None \<Rightarrow> Some q
      | Some r \<Rightarrow> if createdAt q < createdAt r then Some r else Some q)"

definition Quotation_findOne_newest ::
  "quotation_filter \<Rightarrow> world \<Rightarrow> quotation option \<times> world" where
  "Quotation_findOne_newest f w =
     (newest (filter (matches f) (quotations w)), logged (QuotationFindOneNewest f) w)"

text \<open>\<^verbatim>\<open>Inquiry.findOne({ inquiryNumber: n })\<close>\<close>

definition Inquiry_findOne :: "string \<Rightarrow> world \<Rightarrow> inquiry option \<times> world" where
  "Inquiry_findOne n w =
     (find (\<lambda>i. inquiryNumber i = n) (inquiries w), logged (InquiryFindOne n) w)"

text \<open>\<^verbatim>\<open>Inquiry.findById(id)\<close>, called on valid identifiers only.\<close>

definition Inquiry_findById :: "env \<Rightarrow> string \<Rightarrow> world \<Rightarrow> inquiry option \<times> world" where
  "Inquiry_findById env s w =
     (find (\<lambda>i. inquiry_id i = castObjectId env s) (inquiries w), logged (InquiryFindById s) w)"

text \<open>
  The query of the two timestamp blocks,
  \<^verbatim>\<open>Quotation.findOne({ createdAt: { $gte: new Date(timestamp - tolerance), $lte: new Date(timestamp + tolerance) } })\<close>
  sorted by \<open>createdAt\<close> descending. When one of the two dates is invalid the query
  is rejected with a cast error before it is sent, and the \<open>await\<close> throws.
\<close>

definition validDate :: "int \<Rightarrow> bool" where
  "validDate t = (\<bar>t\<bar> \<le> 8640000000000000)"

definition castDateMessage :: string where
  "castDateMessage =
     ''Cast to date failed for value '' @ [CHR 0x22] @ ''Invalid Date'' @ [CHR 0x22] @
     '' (type Date) at path '' @ [CHR 0x22] @ ''createdAt'' @ [CHR 0x22] @
     '' for model '' @ [CHR 0x22] @ ''Quotation'' @ [CHR 0x22]"

definition Quotation_findOne_createdAt ::
  "int \<Rightarrow> int \<Rightarrow> world \<Rightarrow> string + quotation option \<times> world" where
  "Quotation_findOne_createdAt timestamp tolerance w =
     (if validDate (timestamp - tolerance) \<and> validDate (timestamp + tolerance)
      then Inr (Quotation_findOne_newest
                  (CreatedAtBetween (timestamp - tolerance) (timestamp + tolerance)) w)
      else Inl castDateMessage)"

subsection \<open>The three patterns applied to the file name\<close>

text \<open>
  \<open>String.prototype.match\<close> with an unanchored pattern tries the start positions from left
  to right. In each of the three patterns a greedy repetition is followed by a character
  outside the repeated class, so at one start position backtracking cannot succeed where
  the longest run fails: the repetition is \<open>takeWhile\<close>.
\<close>

fun stripPrefix :: "string \<Rightarrow> string \<Rightarrow> string option" where
  "stripPrefix [] s = Some s"
| "stripPrefix (p # ps) [] = None"
| "stripPrefix (p # ps) (c # cs) = (if p = c then stripPrefix ps cs else None)"

fun firstMatch :: "(string \<Rightarrow> 'a option) \<Rightarrow> string \<Rightarrow> 'a option" where
  "firstMatch m [] = m []"
| "firstMatch m (c # cs) = (case m (c # cs) of Some r \<Rightarrow> Some r | None \<Rightarrow> firstMatch m cs)"

text \<open>\<^verbatim>\<open>/quotation_(INQ\d+)_(\d+)\.pdf/\<close>, the two groups.\<close>

definition inquiryMatchAt :: "string \<Rightarrow> (string \<times> string) option" where
  "inquiryMatchAt s =
     (case stripPrefix ''quotation_INQ'' s of
        None \<Rightarrow> None
      | Some r \<Rightarrow>
          (if takeWhile isDigit r = [] then None
           else (case stripPrefix ''_'' (dropWhile isDigit r) of
                   None \<Rightarrow> None
                 | Some r2 \<Rightarrow>
                     (if takeWhile isDigit r2 \<noteq> [] \<and> startsWith (dropWhile isDigit r2) ''.pdf''
                      then Some (''INQ'' @ takeWhile isDigit r, takeWhile isDigit r2)
                      else None))))"

text \<open>\<^verbatim>\<open>/quotation-(\d+)-/\<close>, the group.\<close>

definition timestampMatchAt :: "string \<Rightarrow> string option" where
  "timestampMatchAt s =
     (case stripPrefix ''quotation-'' s of
        None \<Rightarrow> None
      | Some r \<Rightarrow>
          (if takeWhile isDigit r \<noteq> [] \<and> startsWith (dropWhile isDigit r) ''-''
           then Some (takeWhile isDigit r) else None))"

text \<open>\<^verbatim>\<open>/quotation_[^_]+_(\d+)\.pdf/\<close>, the group.\<close>

definition generatedTimestampMatchAt :: "string \<Rightarrow> string option" where
  "generatedTimestampMatchAt s =
     (case stripPrefix ''quotation_'' s of
        None \<Rightarrow> None
      | Some r \<Rightarrow>
          (if takeWhile (\<lambda>c. c \<noteq> CHR ''_'') r = [] then None
           else (case stripPrefix ''_'' (dropWhile (\<lambda>c. c \<noteq> CHR ''_'') r) of
                   None \<Rightarrow> None
                 | Some r2 \<Rightarrow>
                     (if takeWhile isDigit r2 \<noteq> [] \<and> startsWith (dropWhile isDigit r2) ''.pdf''
                      then Some (takeWhile isDigit r2) else None))))"

text \<open>\<open>parseInt\<close> on a run of decimal digits.\<close>

definition digitValue :: "char \<Rightarrow> nat" where
  "digitValue c = of_char c - 48"

definition parseInt :: "string \<Rightarrow> int" where
  "parseInt ds = fold (\<lambda>c n. 10 * n + int (digitValue c)) ds 0"

subsection \<open>Finding the quotation for a file name\<close>

text \<open>
  The handler keeps the result of the search in the variable \<open>quotation\<close>; each block
  after the first runs only while it is still unset. The search is therefore in one of
  three states: nothing found yet, a quotation found, or an exception thrown on the way
  (which leaves the \<open>try\<close> block). A block takes the state of the search and the
  state of the world and returns both.
\<close>

datatype search = Unset | Found quotation | Thrown string

definition found :: "quotation option \<Rightarrow> search" where
  "found r = (case r of None \<Rightarrow> Unset | Some q \<Rightarrow> Found q)"

text \<open>\<^verbatim>\<open>let quotation = await Quotation.findOne({ quotationPdf: filename })\<close>\<close>

definition exactMatch :: "string \<Rightarrow> world \<Rightarrow> search \<times> world" where
  "exactMatch filename w = apfst found (Quotation_findOne (PdfEquals filename) w)"

definition partialMatch :: "string \<Rightarrow> search \<times> world \<Rightarrow> search \<times> world" where
  "partialMatch filename sw =
     (case sw of
        (Unset, w) \<Rightarrow> apfst found (Quotation_findOne (PdfRegex (escapeRegExp filename)) w)
      | (s, w) \<Rightarrow> (s, w))"

definition inquiryNumberSearch :: "string \<Rightarrow> search \<times> world \<Rightarrow> search \<times> world" where
  "inquiryNumberSearch filename sw =
     (case sw of
        (Unset, w) \<Rightarrow>
          (case firstMatch inquiryMatchAt filename of
             None \<Rightarrow> (Unset, w)
           | Some (number, ts) \<Rightarrow>
               (case Inquiry_findOne number w of
                  (None, w1) \<Rightarrow> (Unset, w1)
                | (Some foundInquiry, w1) \<Rightarrow>
                    (case Quotation_findOne (InquiryIdEquals (inquiry_id foundInquiry)) w1 of
                       (Some q, w2) \<Rightarrow> (Found q, w2)
                     | (None, w2) \<Rightarrow>
                         apfst found (Quotation_findOne (InquiryIdEquals number) w2))))
      | (s, w) \<Rightarrow> (s, w))"

definition createdAtSearch :: "int \<Rightarrow> int \<Rightarrow> world \<Rightarrow> search \<times> world" where
  "createdAtSearch timestamp tolerance w =
     (case Quotation_findOne_createdAt timestamp tolerance w of
        Inl message \<Rightarrow> (Thrown message, w)
      | Inr rw \<Rightarrow> apfst found rw)"

definition timestampSearch :: "string \<Rightarrow> search \<times> world \<Rightarrow> search \<times> world" where
  "timestampSearch filename sw =
     (case sw of
        (Unset, w) \<Rightarrow>
          (case firstMatch timestampMatchAt filename of
             None \<Rightarrow> (Unset, w)
           | Some ds \<Rightarrow> createdAtSearch (parseInt ds) 5000 w)
      | (s, w) \<Rightarrow> (s, w))"

definition generatedTimestampSearch ::
  "string \<Rightarrow> search \<times> world \<Rightarrow> search \<times> world" where
  "generatedTimestampSearch filename sw =
     (case sw of
        (Unset, w) \<Rightarrow>
          (case firstMatch generatedTimestampMatchAt filename of
             None \<Rightarrow> (Unset, w)
           | Some ds \<Rightarrow> createdAtSearch (parseInt ds) 10000 w)
      | (s, w) \<Rightarrow> (s, w))"

definition locate :: "string \<Rightarrow> world \<Rightarrow> search \<times> world" where
  "locate filename w =
     generatedTimestampSearch filename
       (timestampSearch filename
         (inquiryNumberSearch filename
           (partialMatch filename
             (exactMatch filename w))))"

subsection \<open>Shaping the data for the PDF service\<close>

text \<open>\<open>x || d\<close> on a string and on a number: the empty string and zero count as absent.\<close>

definition or_string :: "string option \<Rightarrow> string \<Rightarrow> string" where
  "or_string x d = (case x of None \<Rightarrow> d | Some s \<Rightarrow> if s = [] then d else s)"

definition or_number :: "real option \<Rightarrow> real \<Rightarrow> real" where
  "or_number x d = (case x of None \<Rightarrow> d | Some n \<Rightarrow> if n = 0 then d else n)"

definition itemRow :: "item \<Rightarrow> pdf_part" where
  "itemRow item =
     \<lparr>partRef = or_string (item_partRef item) [],
      material = or_string (item_material item) ''Zintec'',
      thickness = or_string (item_thickness item) ''1.5'',
      quantity = or_number (item_quantity item) 1,
      price = or_number (item_unitPrice item) 0,
      remarks = or_string (item_remark item) []\<rparr>"

definition partRow :: "part \<Rightarrow> pdf_part" where
  "partRow part =
     \<lparr>partRef = or_string (part_partRef part) [],
      material = or_string (part_material part) ''Zintec'',
      thickness = or_string (part_thickness part) ''1.5'',
      quantity = or_number (part_quantity part) 1,
      price = 0,
      remarks = or_string (part_remarks part) []\<rparr>"

definition preparePdfQuotationData :: "quotation \<Rightarrow> inquiry \<Rightarrow> int \<Rightarrow> pdfQuotationData" where
  "preparePdfQuotationData quotation inquiry now =
     \<lparr>pdf_parts =
        (if items quotation \<noteq> [] then map itemRow (items quotation)
         else map partRow (parts inquiry)),
      pdf_totalAmount = totalAmount quotation,
      currency = ''USD'',
      pdf_validUntil =
        (case validUntil quotation of Some d \<Rightarrow> d | None \<Rightarrow> now + 30 * 24 * 60 * 60 * 1000),
      pdf_terms =
        or_string (terms quotation)
          ''Standard manufacturing terms apply. Payment required before production begins.''\<rparr>"

subsection \<open>The handler\<close>

datatype json = JBool bool | JString string

datatype response
  = SendFile "(string \<times> string) list" string
  | Json nat "(string \<times> json) list"

text \<open>\<^verbatim>\<open>path.join(__dirname, 'uploads', 'quotations', filename)\<close>, for a plain file name.\<close>

definition quotationsPath :: "string \<Rightarrow> string" where
  "quotationsPath filename = ''__dirname/uploads/quotations/'' @ filename"

definition existsSync :: "world \<Rightarrow> string \<Rightarrow> bool" where
  "existsSync w p = (p \<in> files w)"

definition pdfHeaders :: "string \<Rightarrow> string \<Rightarrow> (string \<times> string) list" where
  "pdfHeaders disposition name =
     [(''Access-Control-Allow-Origin'', ''*''),
      (''Access-Control-Allow-Methods'', ''GET, OPTIONS''),
      (''Content-Type'', ''application/pdf''),
      (''Content-Disposition'',
         disposition @ ''; filename='' @ [CHR 0x22] @ name @ [CHR 0x22])]"

fun updateFirst :: "('a \<Rightarrow> bool) \<Rightarrow> ('a \<Rightarrow> 'a) \<Rightarrow> 'a list \<Rightarrow> 'a list" where
  "updateFirst P f [] = []"
| "updateFirst P f (x # xs) = (if P x then f x # xs else x # updateFirst P f xs)"

text \<open>
  \<^verbatim>\<open>quotation.quotationPdf = pdfResult.fileName; await quotation.save()\<close>: the stored document
  with the quotation's \<open>_id\<close> receives the new \<open>quotationPdf\<close> and, the schema having
  \<open>timestamps\<close>, a new \<open>updatedAt\<close>.
\<close>

definition quotation_save :: "env \<Rightarrow> quotation \<Rightarrow> world \<Rightarrow> string option \<times> world" where
  "quotation_save env q w =
     (case saveError env q of
        Some message \<Rightarrow> (Some message, logged (QuotationSave (quotation_id q)) w)
      | None \<Rightarrow>
          (None,
           logged (QuotationSave (quotation_id q))
             (w\<lparr>quotations :=
                  updateFirst (\<lambda>d. quotation_id d = quotation_id q)
                    (\<lambda>d. d\<lparr>quotationPdf := quotationPdf q, updatedAt := clock w\<rparr>)
                    (quotations w)\<rparr>)))"

definition regenerationError :: "string \<Rightarrow> response" where
  "regenerationError message =
     Json 500
       [(''success'', JBool False),
        (''message'', JString ''Error regenerating PDF''),
        (''error'', JString message)]"

text \<open>
  The part of the handler after the quotation is found: the inquiry (by identifier when
  \<open>inquiryId\<close> is a valid one, else by inquiry number), the data, the service, the check
  that the file is there, the write-back and the response. The \<open>stack\<close> field of the
  error body, present in development only, is left out.
\<close>

definition findInquiry :: "env \<Rightarrow> quotation \<Rightarrow> world \<Rightarrow> inquiry option \<times> world" where
  "findInquiry env quotation w =
     (if ObjectId_isValid env (inquiryId quotation)
      then Inquiry_findById env (inquiryId quotation) w
      else Inquiry_findOne (inquiryId quotation) w)"

definition regenerate ::
  "env \<Rightarrow> string \<Rightarrow> string \<Rightarrow> quotation \<Rightarrow> world \<Rightarrow> response \<times> world" where
  "regenerate env filename disposition quotation w =
     (case findInquiry env quotation w of
        (None, w1) \<Rightarrow>
          (Json 404
             [(''success'', JBool False),
              (''message'', JString ''Inquiry not found for quotation''),
              (''quotationId'', JString (quotation_id quotation)),
              (''inquiryId'', JString (inquiryId quotation))],
           w1)
      | (Some inquiry, w1) \<Rightarrow>
          (let pdfData = preparePdfQuotationData quotation inquiry (clock w1);
               w2 = w1\<lparr>builderLog := builderLog w1 @ [(inquiry, pdfData)]\<rparr>
           in (case generateQuotationPDF env inquiry pdfData (clock w2) (files w2) of
                 Inl message \<Rightarrow> (regenerationError message, w2)
               | Inr (pdf, files') \<Rightarrow>
                   (let w3 = w2\<lparr>files := files'\<rparr>
                    in if \<not> existsSync w3 (filePath pdf)
                       then (Json 500
                               [(''success'', JBool False),
                                (''message'', JString ''PDF generation failed - file not created''),
                                (''path'', JString (filePath pdf))],
                             w3)
                       else if fileName pdf \<noteq> filename
                       then (case quotation_save env
                                    (quotation\<lparr>quotationPdf := Some (fileName pdf)\<rparr>) w3 of
                               (Some message, w4) \<Rightarrow> (regenerationError message, w4)
                             | (None, w4) \<Rightarrow>
                                 (SendFile (pdfHeaders disposition (fileName pdf)) (filePath pdf),
                                  w4))
                       else (SendFile (pdfHeaders disposition (fileName pdf)) (filePath pdf),
                             w3)))))"

text \<open>
  \<open>handleQuotationPDF(filename, res, req)\<close>; of the request only \<open>req.query.download\<close> is
  read. \<open>res.sendFile\<close> of a file that is there is taken to succeed.
\<close>

definition handleQuotationPDF ::
  "env \<Rightarrow> string \<Rightarrow> string option \<Rightarrow> world \<Rightarrow> response \<times> world" where
  "handleQuotationPDF env filename download w =
     (let shouldDownload = (download = Some ''true'' \<or> download = Some ''1'');
          disposition = (if shouldDownload then ''attachment'' else ''inline'')
      in if existsSync w (quotationsPath filename)
         then (SendFile (pdfHeaders disposition filename) (quotationsPath filename), w)
         else (case locate filename w of
                 (Unset, w1) \<Rightarrow>
                   (Json 404
                      [(''success'', JBool False),
                       (''message'', JString ''Quotation PDF not found and cannot be regenerated''),
                       (''filename'', JString filename)],
                    w1)
               | (Found quotation, w1) \<Rightarrow> regenerate env filename disposition quotation w1
               | (Thrown message, w1) \<Rightarrow> (regenerationError message, w1)))"

subsection \<open>The interceptor\<close>

text \<open>
  \<open>quotationPDFInterceptor\<close> runs before the handler is registered as well as after.
  Time is counted in milliseconds from the arrival of the request and timers fire at
  their nominal delay: \<open>ready t\<close> says that \<open>quotationPDFHandler\<close> is set at time \<open>t\<close>,
  and \<open>handler t\<close> is what a handler called at time \<open>t\<close> does, \<open>Some (d, r)\<close> when it
  sends the response \<open>r\<close> after \<open>d\<close> milliseconds and \<open>None\<close> when it never sends one.

  \<open>setInterval(..., 100)\<close> is the run of checks \<open>pollTicks\<close> at 100, 200, ..., 4900;
  \<open>setTimeout(..., 5000)\<close> clears the interval at 5000 and answers 503 unless the
  headers were sent before. Whatever is due at 5000 itself comes after the timeout. The
  timeout is not cleared when the handler is called, so a handler called at a check
  and still silent at 5000 is overtaken by the 503.

  The test on the path is \<open>startsWith\<close>: the pattern of its second disjunct matches
  only paths that start with \<open>/quotations/\<close>. The handler is called with the rest of
  the path as the file name.
\<close>

datatype outcome
  = NextMiddleware
  | Reply nat response
  | NoReply

definition serviceUnavailable :: response where
  "serviceUnavailable =
     Json 503 [(''success'', JBool False), (''message'', JString ''Service temporarily unavailable'')]"

fun pollTicks :: "(nat \<Rightarrow> bool) \<Rightarrow> nat \<Rightarrow> nat \<Rightarrow> nat option" where
  "pollTicks ready t 0 = None"
| "pollTicks ready t (Suc n) = (if ready t then Some t else pollTicks ready (t + 100) n)"

definition quotationPDFInterceptor ::
  "string \<Rightarrow> (nat \<Rightarrow> bool) \<Rightarrow> (nat \<Rightarrow> (nat \<times> response) option) \<Rightarrow> outcome" where
  "quotationPDFInterceptor path ready handler =
     (if \<not> startsWith path ''/quotations/'' then NextMiddleware
      else if ready 0
      then (case handler 0 of None \<Rightarrow> NoReply | Some (d, r) \<Rightarrow> Reply d r)
      else (case pollTicks ready 100 49 of
              None \<Rightarrow> Reply 5000 serviceUnavailable
            | Some t \<Rightarrow>
                (case handler t of
                   None \<Rightarrow> Reply 5000 serviceUnavailable
                 | Some (d, r) \<Rightarrow>
                     if t + d < 5000 then Reply (t + d) r else Reply 5000 serviceUnavailable)))"

subsection \<open>Requests that overlap\<close>

text \<open>
  An \<open>async\<close> function runs without interruption from one \<open>await\<close> to the next; while
  a request waits, the event loop runs the handlers of other requests. To follow two
  requests at once the handler is cut at one of its awaits,
  \<^verbatim>\<open>const pdfResult = await pdfService.generateQuotationPDF(inquiry, pdfQuotationData)\<close>:
  \<open>untilService\<close> is the handler from its start to this call, \<open>afterService\<close> the
  handler from the return of the call to its response. In between the request is
  suspended and holds the variables the rest of the handler reads. The other awaits are
  not used for switching between requests, so every run of this model is a run of the
  event loop. The call of the service is recorded when it is made; the service reads the
  clock when it is called, and its result and the files it leaves are taken when it
  returns.
\<close>

record rebuild =
  rebuild_filename :: string
  rebuild_disposition :: string
  rebuild_quotation :: quotation
  rebuild_inquiry :: inquiry
  rebuild_data :: pdfQuotationData
  rebuild_calledAt :: int

datatype request
  = Arrived string "string option"
  | AwaitingService rebuild
  | Responded response

text \<open>The handler up to the call of the service.\<close>

definition untilService :: "env \<Rightarrow> string \<Rightarrow> string option \<Rightarrow> world \<Rightarrow> request \<times> world" where
  "untilService env filename download w =
     (let shouldDownload = (download = Some ''true'' \<or> download = Some ''1'');
          disposition = (if shouldDownload then ''attachment'' else ''inline'')
      in if existsSync w (quotationsPath filename)
         then (Responded (SendFile (pdfHeaders disposition filename) (quotationsPath filename)), w)
         else (case locate filename w of
                 (Unset, w1) \<Rightarrow>
                   (Responded
                      (Json 404
                         [(''success'', JBool False),
                          (''message'', JString ''Quotation PDF not found and cannot be regenerated''),
                          (''filename'', JString filename)]),
                    w1)
               | (Found quotation, w1) \<Rightarrow>
                   (case findInquiry env quotation w1 of
                      (None, w2) \<Rightarrow>
                        (Responded
                           (Json 404
                              [(''success'', JBool False),
                               (''message'', JString ''Inquiry not found for quotation''),
                               (''quotationId'', JString (quotation_id quotation)),
                               (''inquiryId'', JString (inquiryId quotation))]),
                         w2)
                    | (Some inquiry, w2) \<Rightarrow>
                        (let pdfData = preparePdfQuotationData quotation inquiry (clock w2)
                         in (AwaitingService
                               \<lparr>rebuild_filename = filename,
                                rebuild_disposition = disposition,
                                rebuild_quotation = quotation,
                                rebuild_inquiry = inquiry,
                                rebuild_data = pdfData,
                                rebuild_calledAt = clock w2\<rparr>,
                             w2\<lparr>builderLog := builderLog w2 @ [(inquiry, pdfData)]\<rparr>)))
               | (Thrown message, w1) \<Rightarrow> (Responded (regenerationError message), w1)))"

text \<open>The handler from the return of the service.\<close>

definition afterService :: "env \<Rightarrow> rebuild \<Rightarrow> world \<Rightarrow> response \<times> world" where
  "afterService env r w =
     (case generateQuotationPDF env (rebuild_inquiry r) (rebuild_data r) (rebuild_calledAt r)
             (files w) of
        Inl message \<Rightarrow> (regenerationError message, w)
      | Inr (pdf, files') \<Rightarrow>
          (let w3 = w\<lparr>files := files'\<rparr>
           in if \<not> existsSync w3 (filePath pdf)
              then (Json 500
                      [(''success'', JBool False),
                       (''message'', JString ''PDF generation failed - file not created''),
                       (''path'', JString (filePath pdf))],
                    w3)
              else if fileName pdf \<noteq> rebuild_filename r
              then (case quotation_save env
                           ((rebuild_quotation r)\<lparr>quotationPdf := Some (fileName pdf)\<rparr>) w3 of
                      (Some message, w4) \<Rightarrow> (regenerationError message, w4)
                    | (None, w4) \<Rightarrow>
                        (SendFile (pdfHeaders (rebuild_disposition r) (fileName pdf)) (filePath pdf),
                         w4))
              else (SendFile (pdfHeaders (rebuild_disposition r) (fileName pdf)) (filePath pdf),
                    w3)))"

fun resume :: "env \<Rightarrow> request \<Rightarrow> world \<Rightarrow> request \<times> world" where
  "resume env (Arrived filename download) w = untilService env filename download w"
| "resume env (AwaitingService r) w = apfst Responded (afterService env r w)"
| "resume env (Responded r) w = (Responded r, w)"

text \<open>
  A run is a list of events over the requests in progress: \<open>Resume i\<close> lets request
  \<open>i\<close> run to its next suspension or to its response, \<open>Elapse ms\<close> lets time pass.
\<close>

datatype event = Resume nat | Elapse int

fun step :: "env \<Rightarrow> event \<Rightarrow> request list \<times> world \<Rightarrow> request list \<times> world" where
  "step env (Resume i) (rs, w) =
     (if i < length rs
      then (case resume env (rs ! i) w of (r, w') \<Rightarrow> (rs[i := r], w'))
      else (rs, w))"
| "step env (Elapse ms) (rs, w) = (rs, w\<lparr>clock := clock w + ms\<rparr>)"

definition run :: "env \<Rightarrow> event list \<Rightarrow> request list \<times> world \<Rightarrow> request list \<times> world" where
  "run env events s = fold (step env) events s"

text \<open>
  The number of requests that are suspended at the service for the quotation with a
  given \<open>_id\<close>.
\<close>

definition rebuildsInFlight :: "string \<Rightarrow> request list \<Rightarrow> nat" where
  "rebuildsInFlight qid rs =
     length
       (filter
          (\<lambda>r. case r of
                 AwaitingService p \<Rightarrow> quotation_id (rebuild_quotation p) = qid
               | _ \<Rightarrow> False)
          rs)"

subsection \<open>The stored file name of a quotation\<close>

text \<open>The \<open>quotationPdf\<close> of the stored document with a given \<open>_id\<close>.\<close>

definition storedPdf :: "string \<Rightarrow> world \<Rightarrow> string option option" where
  "storedPdf qid w = map_option quotationPdf (find (\<lambda>d. quotation_id d = qid) (quotations w))"

subsection \<open>The search as an ordered list of strategies\<close>

text \<open>
  The four strategies as the specification words them, each with the database calls it
  makes and its outcome, both computed from the collections alone; \<open>first_success\<close> runs
  a list of them in order and stops at the first that yields a quotation (or throws).
  The fourth strategy has the two file-name shapes, tried in order.
\<close>

type_synonym attempt = "db_call list \<times> search"

fun first_success :: "attempt list \<Rightarrow> attempt" where
  "first_success [] = ([], Unset)"
| "first_success ((calls, Unset) # rest) =
     (calls @ fst (first_success rest), snd (first_success rest))"
| "first_success ((calls, outcome) # rest) = (calls, outcome)"

definition exact_pointer :: "world \<Rightarrow> string \<Rightarrow> attempt" where
  "exact_pointer w filename =
     ([QuotationFindOne (PdfEquals filename)],
      found (find (\<lambda>q. quotationPdf q = Some filename) (quotations w)))"

definition fuzzy_pointer :: "world \<Rightarrow> string \<Rightarrow> attempt" where
  "fuzzy_pointer w filename =
     ([QuotationFindOne (PdfRegex (escapeRegExp filename))],
      found
        (find (\<lambda>q. case quotationPdf q of
                     None \<Rightarrow> False
                   | Some p \<Rightarrow> includes_str (toLowerCase p) (toLowerCase filename))
           (quotations w)))"

definition embedded_inquiry_number :: "world \<Rightarrow> string \<Rightarrow> attempt" where
  "embedded_inquiry_number w filename =
     (case firstMatch inquiryMatchAt filename of
        None \<Rightarrow> ([], Unset)
      | Some (number, ts) \<Rightarrow>
          (case find (\<lambda>i. inquiryNumber i = number) (inquiries w) of
             None \<Rightarrow> ([InquiryFindOne number], Unset)
           | Some inq \<Rightarrow>
               first_success
                 [([InquiryFindOne number, QuotationFindOne (InquiryIdEquals (inquiry_id inq))],
                   found (find (\<lambda>q. inquiryId q = inquiry_id inq) (quotations w))),
                  ([QuotationFindOne (InquiryIdEquals number)],
                   found (find (\<lambda>q. inquiryId q = number) (quotations w)))]))"

definition in_window :: "int \<Rightarrow> int \<Rightarrow> quotation \<Rightarrow> bool" where
  "in_window t tolerance q = (\<bar>createdAt q - t\<bar> \<le> tolerance)"

definition timestamp_window :: "(string \<Rightarrow> string option) \<Rightarrow> int \<Rightarrow> world \<Rightarrow> string \<Rightarrow> attempt" where
  "timestamp_window shape tolerance w filename =
     (case firstMatch shape filename of
        None \<Rightarrow> ([], Unset)
      | Some ds \<Rightarrow>
          (if validDate (parseInt ds - tolerance) \<and> validDate (parseInt ds + tolerance)
           then ([QuotationFindOneNewest
                    (CreatedAtBetween (parseInt ds - tolerance) (parseInt ds + tolerance))],
                 found (newest (filter (in_window (parseInt ds) tolerance) (quotations w))))
           else ([], Thrown castDateMessage)))"

definition timestamp_proximity :: "world \<Rightarrow> string \<Rightarrow> attempt" where
  "timestamp_proximity w filename =
     first_success
       [timestamp_window timestampMatchAt 5000 w filename,
        timestamp_window generatedTimestampMatchAt 10000 w filename]"

definition record_locator :: "world \<Rightarrow> string \<Rightarrow> attempt" where
  "record_locator w filename =
     first_success
       [exact_pointer w filename,
        fuzzy_pointer w filename,
        embedded_inquiry_number w filename,
        timestamp_proximity w filename]"

text \<open>The state with further database calls recorded.\<close>

definition ext :: "world \<Rightarrow> db_call list \<Rightarrow> world" where
  "ext w calls = w\<lparr>queryLog := queryLog w @ calls\<rparr>"

text \<open>
  What it is for an outcome to be the choice of the fourth strategy over a list of
  quotations: none when no quotation was created within the tolerance of the timestamp,
  else one of those within it, and none of those within it was created later.
\<close>

definition newest_in_window :: "quotation list \<Rightarrow> int \<Rightarrow> int \<Rightarrow> search \<Rightarrow> bool" where
  "newest_in_window qs t tolerance outcome =
     (case outcome of
        Unset \<Rightarrow> list_all (\<lambda>q. \<not> in_window t tolerance q) qs
      | Found q \<Rightarrow>
          q \<in> set qs \<and> in_window t tolerance q \<and>
          list_all (\<lambda>r. in_window t tolerance r \<longrightarrow> createdAt r \<le> createdAt q) qs
      | Thrown message \<Rightarrow> False)"



subsection \<open>Sample documents and a sample PDF service\<close>

text \<open>
  The sample service names its file \<open>quotation_<inquiryNumber>_<clock>.pdf\<close>, the
  generated format the handler's third and fifth search blocks parse, writes it into the
  quotations directory and never throws.
\<close>

definition digitChar :: "nat \<Rightarrow> char" where
  "digitChar n = ''0123456789'' ! n"

function decimal :: "int \<Rightarrow> string" where
  "decimal n =
     (if n < 10 then [digitChar (nat n)] else decimal (n div 10) @ [digitChar (nat (n mod 10))])"
  by pat_completeness auto
termination
  by (relation "measure nat") auto

declare decimal.simps [simp del]

definition sampleService ::
  "inquiry \<Rightarrow> pdfQuotationData \<Rightarrow> int \<Rightarrow> string set \<Rightarrow> string + pdfResult \<times> string set" where
  "sampleService inq pdfData now fs =
     (let name = ''quotation_'' @ inquiryNumber inq @ ''_'' @ decimal now @ ''.pdf''
      in Inr (\<lparr>fileName = name, filePath = quotationsPath name\<rparr>,
              insert (quotationsPath name) fs))"

definition sampleEnv :: env where
  "sampleEnv =
     \<lparr>generateQuotationPDF = sampleService,
      saveError = (\<lambda>q. None),
      ObjectId_isValid = (\<lambda>s. length s = 24 \<and> list_all isHex s),
      castObjectId = toLowerCase\<rparr>"

definition samplePart :: part where
  "samplePart =
     \<lparr>part_partRef = None, part_material = Some ''Steel'', part_thickness = Some ''2mm'',
      part_grade = None, part_quantity = Some 5, part_remarks = None, part_price = None\<rparr>"

definition sampleInquiry :: inquiry where
  "sampleInquiry =
     \<lparr>inquiry_id = ''64b7f0c2a1d3e4f5a6b7c8d9'', inquiryNumber = ''INQ251031789'',
      customer = ''customer'', parts = [samplePart]\<rparr>"

definition sampleQuotation :: quotation where
  "sampleQuotation =
     \<lparr>quotation_id = ''64b7f0c2a1d3e4f5a6b7c8e0'', quotationNumber = Some ''QUO251031001'',
      inquiryId = ''64b7f0c2a1d3e4f5a6b7c8d9'', totalAmount = 500, items = [],
      quotationPdf = Some ''quotation-1700000000000-7421.pdf'', status = sent,
      validUntil = None, terms = None,
      createdAt = 1700000000000, updatedAt = 1700000000000\<rparr>"

definition sampleWorld :: world where
  "sampleWorld =
     \<lparr>quotations = [sampleQuotation], inquiries = [sampleInquiry], files = {},
      clock = 1700000600000, queryLog = [], builderLog = []\<rparr>"

definition storedWorld :: world where
  "storedWorld = sampleWorld\<lparr>files := {quotationsPath ''quotation-1700000000000-7421.pdf''}\<rparr>"

text \<open>
  Two quotations without a stored file name, created three seconds apart; the second
  belongs to an inquiry that is not in the collection.
\<close>

definition laterQuotation :: quotation where
  "laterQuotation =
     sampleQuotation
       \<lparr>quotation_id := ''64b7f0c2a1d3e4f5a6b7c8e1'', inquiryId := ''64b7f0c2a1d3e4f5a6b7c8da'',
        quotationPdf := None, createdAt := 1700000003000\<rparr>"

definition unlinkedWorld :: world where
  "unlinkedWorld =
     sampleWorld\<lparr>quotations := [sampleQuotation\<lparr>quotationPdf := None\<rparr>, laterQuotation]\<rparr>"


text \<open>The sample quotation with no stored file name.\<close>

definition unsetWorld :: world where
  "unsetWorld = sampleWorld\<lparr>quotations := [sampleQuotation\<lparr>quotationPdf := None\<rparr>]\<rparr>"

text \<open>Nothing stored: no quotation, no inquiry, no file.\<close>

definition emptyWorld :: world where
  "emptyWorld =
     \<lparr>quotations = [], inquiries = [], files = {}, clock = 1700000600000, queryLog = [],
      builderLog = []\<rparr>"

section \<open>Properties\<close>

lemma tokenize_escapeRegExp: "tokenize (escapeRegExp filename) = map Literal filename"
proof (induction filename)
  case Nil
  show ?case by (simp add: escapeRegExp_def)
next
  case (Cons c cs)
  have tl: "tokenize (escapeRegExp cs) = map Literal cs"
    using Cons.IH .
  show ?case
  proof (cases "c \<in> set escaped_characters")
    case True
    then have "\<not> isAlnum c"
      by (auto simp: escaped_characters_def isAlnum_def backslash_def)
    with True tl show ?thesis
      by (simp add: escapeRegExp_def)
  next
    case False
    then have ns: "c \<noteq> backslash" "c \<notin> set syntax_characters"
      by (auto simp: escaped_characters_def syntax_characters_def)
    show ?thesis
    proof (cases "escapeRegExp cs")
      case Nil
      with tl have "cs = []" by simp
      with False ns show ?thesis by (simp add: escapeRegExp_def)
    next
      case (Cons d ds)
      have "escapeRegExp (c # cs) = c # escapeRegExp cs"
        using False by (simp add: escapeRegExp_def)
      with Cons ns tl show ?thesis by simp
    qed
  qed
qed

lemma literal_of_Literal: "literal_of (map Literal s) = Some s"
  by (induction s) simp_all

subsection \<open>Containment of strings\<close>

lemma startsWith_iff: "startsWith s p = (\<exists>b. s = p @ b)"
  by (induction s p rule: startsWith.induct) auto

lemma includes_str_iff: "includes_str s p = (\<exists>a b. s = a @ p @ b)"
proof (induction s)
  case Nil
  show ?case by (cases p) (simp_all add: startsWith_iff)
next
  case (Cons c cs)
  show ?case
  proof
    assume "includes_str (c # cs) p"
    then consider "startsWith (c # cs) p" | "includes_str cs p" by auto
    then show "\<exists>a b. c # cs = a @ p @ b"
    proof cases
      case 1
      then obtain b where "c # cs = p @ b" by (auto simp: startsWith_iff)
      then have "c # cs = [] @ p @ b" by simp
      then show ?thesis by blast
    next
      case 2
      with Cons.IH obtain a b where "cs = a @ p @ b" by blast
      then have "c # cs = (c # a) @ p @ b" by simp
      then show ?thesis by blast
    qed
  next
    assume "\<exists>a b. c # cs = a @ p @ b"
    then obtain a b where ab: "c # cs = a @ p @ b" by blast
    show "includes_str (c # cs) p"
    proof (cases a)
      case Nil
      with ab have "startsWith (c # cs) p" by (auto simp: startsWith_iff)
      then show ?thesis by simp
    next
      case (Cons x xs)
      with ab have "cs = xs @ p @ b" by simp
      with Cons.IH have "includes_str cs p" by blast
      then show ?thesis by simp
    qed
  qed
qed

subsection \<open>The partial match is a literal match\<close>

text \<open>
  C10. The pattern built from the file name reads as the characters of the file name,
  each a literal: no character of the file name is read as an operator or as part of an
  escape sequence. The \<open>$regex\<close> filter of the second search block therefore holds of a
  quotation exactly when its \<open>quotationPdf\<close> contains the file name, letter case
  ignored.
\<close>

theorem partial_match_pattern_is_literal:
  "tokenize (escapeRegExp filename) = map Literal filename \<and>
   regex_test_i (escapeRegExp filename) pointer =
     Some (\<exists>a b. toLowerCase pointer = a @ toLowerCase filename @ b) \<and>
   matches (PdfRegex (escapeRegExp filename)) q =
     (\<exists>pointer a b. quotationPdf q = Some pointer \<and>
        toLowerCase pointer = a @ toLowerCase filename @ b)"
  by (auto simp: tokenize_escapeRegExp regex_test_i_def literal_of_Literal includes_str_iff
      split: option.splits)

subsection \<open>A file that is there is sent as it is\<close>

text \<open>
  C7. When the requested file exists in the quotations directory the handler answers
  by sending that file, and the state it returns is the state it was given: no database
  call was recorded, the PDF service was not called, no document was changed. (The
  handler takes no lock on any path.)
\<close>

theorem existing_file_served_directly:
  assumes "existsSync w (quotationsPath filename)"
  shows "handleQuotationPDF env filename download w =
           (SendFile
              (pdfHeaders (if download = Some ''true'' \<or> download = Some ''1''
                           then ''attachment'' else ''inline'') filename)
              (quotationsPath filename),
            w)"
  using assms by (simp add: handleQuotationPDF_def)

theorem existing_file_served_directly_witness:
  "existsSync storedWorld (quotationsPath ''quotation-1700000000000-7421.pdf'') \<and>
   handleQuotationPDF sampleEnv ''quotation-1700000000000-7421.pdf'' (Some ''1'') storedWorld =
     (SendFile (pdfHeaders ''attachment'' ''quotation-1700000000000-7421.pdf'')
        (quotationsPath ''quotation-1700000000000-7421.pdf''),
      storedWorld)"
proof -
  have h: "existsSync storedWorld (quotationsPath ''quotation-1700000000000-7421.pdf'')"
    by (simp add: existsSync_def storedWorld_def)
  show ?thesis
    using h existing_file_served_directly [OF h, of sampleEnv "Some ''1''"] by simp
qed

subsection \<open>The search stops at the first strategy that succeeds\<close>

lemma ext_simps [simp]:
  "quotations (ext w calls) = quotations w"
  "inquiries (ext w calls) = inquiries w"
  "files (ext w calls) = files w"
  "clock (ext w calls) = clock w"
  "builderLog (ext w calls) = builderLog w"
  "queryLog (ext w calls) = queryLog w @ calls"
  "ext (ext w a) b = ext w (a @ b)"
  "ext w [] = w"
  by (simp_all add: ext_def)

lemma logged_ext: "logged c w = ext w [c]"
  by (simp add: logged_def ext_def)

lemma matches_between_fun: "matches (CreatedAtBetween (t - tol) (t + tol)) = in_window t tol"
  by (rule ext) (auto simp: in_window_def)

lemma matches_escaped:
  "matches (PdfRegex (escapeRegExp filename)) =
     (\<lambda>q. case quotationPdf q of
             None \<Rightarrow> False
           | Some p \<Rightarrow> includes_str (toLowerCase p) (toLowerCase filename))"
  by (rule ext)
     (simp add: regex_test_i_def tokenize_escapeRegExp literal_of_Literal split: option.splits)

lemma matches_PdfEquals: "matches (PdfEquals f) = (\<lambda>q. quotationPdf q = Some f)"
  by (rule ext) simp

lemma matches_InquiryIdEquals: "matches (InquiryIdEquals i) = (\<lambda>q. inquiryId q = i)"
  by (rule ext) simp

lemma attempts_ext [simp]:
  "exact_pointer (ext w calls) filename = exact_pointer w filename"
  "fuzzy_pointer (ext w calls) filename = fuzzy_pointer w filename"
  "embedded_inquiry_number (ext w calls) filename = embedded_inquiry_number w filename"
  "timestamp_window shape tol (ext w calls) filename = timestamp_window shape tol w filename"
  by (simp_all add: exact_pointer_def fuzzy_pointer_def embedded_inquiry_number_def
      timestamp_window_def split: option.splits prod.splits)

lemma first_success_Cons:
  "first_success (a # rest) =
     (if snd a = Unset then (fst a @ fst (first_success rest), snd (first_success rest)) else a)"
  by (cases a; cases "snd a") auto

lemma exactMatch_attempt:
  "exactMatch filename w =
     (snd (exact_pointer w filename), ext w (fst (exact_pointer w filename)))"
  by (simp add: exactMatch_def Quotation_findOne_def exact_pointer_def logged_ext
      matches_PdfEquals)

lemma partialMatch_attempt:
  "partialMatch filename (s, w) =
     (if s = Unset
      then (snd (fuzzy_pointer w filename), ext w (fst (fuzzy_pointer w filename)))
      else (s, w))"
  by (cases s)
     (simp_all add: partialMatch_def Quotation_findOne_def fuzzy_pointer_def logged_ext
        matches_escaped)

lemma inquiryNumberSearch_attempt:
  "inquiryNumberSearch filename (s, w) =
     (if s = Unset
      then (snd (embedded_inquiry_number w filename),
            ext w (fst (embedded_inquiry_number w filename)))
      else (s, w))"
  by (cases s)
     (simp_all add: inquiryNumberSearch_def Quotation_findOne_def Inquiry_findOne_def
        embedded_inquiry_number_def logged_ext matches_InquiryIdEquals first_success_Cons
        found_def split: option.splits prod.splits)

lemma createdAtSearch_attempt:
  "firstMatch shape filename = Some ds \<Longrightarrow>
   createdAtSearch (parseInt ds) tol w =
     (snd (timestamp_window shape tol w filename),
      ext w (fst (timestamp_window shape tol w filename)))"
  by (simp add: createdAtSearch_def Quotation_findOne_createdAt_def
      Quotation_findOne_newest_def timestamp_window_def logged_ext matches_between_fun)

lemma timestampSearch_attempt:
  "timestampSearch filename (s, w) =
     (if s = Unset
      then (snd (timestamp_window timestampMatchAt 5000 w filename),
            ext w (fst (timestamp_window timestampMatchAt 5000 w filename)))
      else (s, w))"
proof (cases s)
  case Unset
  show ?thesis
  proof (cases "firstMatch timestampMatchAt filename")
    case None
    with Unset show ?thesis by (simp add: timestampSearch_def timestamp_window_def)
  next
    case (Some ds)
    with Unset createdAtSearch_attempt [OF Some, of 5000 w] show ?thesis
      by (simp add: timestampSearch_def)
  qed
qed (simp_all add: timestampSearch_def)

lemma generatedTimestampSearch_attempt:
  "generatedTimestampSearch filename (s, w) =
     (if s = Unset
      then (snd (timestamp_window generatedTimestampMatchAt 10000 w filename),
            ext w (fst (timestamp_window generatedTimestampMatchAt 10000 w filename)))
      else (s, w))"
proof (cases s)
  case Unset
  show ?thesis
  proof (cases "firstMatch generatedTimestampMatchAt filename")
    case None
    with Unset show ?thesis by (simp add: generatedTimestampSearch_def timestamp_window_def)
  next
    case (Some ds)
    with Unset createdAtSearch_attempt [OF Some, of 10000 w] show ?thesis
      by (simp add: generatedTimestampSearch_def)
  qed
qed (simp_all add: generatedTimestampSearch_def)

lemma first_success_settled:
  "snd (first_success as) \<noteq> Unset \<Longrightarrow>
     \<exists>pre a post. as = pre @ a # post \<and> list_all (\<lambda>b. snd b = Unset) pre \<and>
       snd a = snd (first_success as) \<and>
       fst (first_success as) = concat (map fst pre) @ fst a"
proof (induction as)
  case Nil
  then show ?case by simp
next
  case (Cons b bs)
  show ?case
  proof (cases "snd b = Unset")
    case False
    then have "b # bs = [] @ b # bs \<and> list_all (\<lambda>b. snd b = Unset) [] \<and>
        snd b = snd (first_success (b # bs)) \<and>
        fst (first_success (b # bs)) = concat (map fst []) @ fst b"
      by (simp add: first_success_Cons)
    then show ?thesis by blast
  next
    case True
    with Cons.prems have "snd (first_success bs) \<noteq> Unset"
      by (simp add: first_success_Cons)
    with Cons.IH obtain pre a post where
      "bs = pre @ a # post" "list_all (\<lambda>b. snd b = Unset) pre"
      "snd a = snd (first_success bs)"
      "fst (first_success bs) = concat (map fst pre) @ fst a"
      by blast
    with True have "b # bs = (b # pre) @ a # post \<and>
        list_all (\<lambda>b. snd b = Unset) (b # pre) \<and>
        snd a = snd (first_success (b # bs)) \<and>
        fst (first_success (b # bs)) = concat (map fst (b # pre)) @ fst a"
      by (simp add: first_success_Cons)
    then show ?thesis by blast
  qed
qed

lemma first_success_unset:
  "snd (first_success as) = Unset \<Longrightarrow>
     list_all (\<lambda>b. snd b = Unset) as \<and> fst (first_success as) = concat (map fst as)"
  by (induction as) (auto simp: first_success_Cons split: if_splits)

lemma locate_record_locator:
  "locate filename w =
     (snd (record_locator w filename), ext w (fst (record_locator w filename)))"
proof -
  let ?e = "exact_pointer w filename" and ?f = "fuzzy_pointer w filename"
  and ?i = "embedded_inquiry_number w filename"
  and ?t = "timestamp_window timestampMatchAt 5000 w filename"
  and ?g = "timestamp_window generatedTimestampMatchAt 10000 w filename"
  show ?thesis
  proof (cases "snd ?e = Unset")
    case False
    then show ?thesis
      by (simp add: locate_def record_locator_def exactMatch_attempt partialMatch_attempt
          inquiryNumberSearch_attempt timestampSearch_attempt generatedTimestampSearch_attempt
          first_success_Cons)
  next
    case e: True
    show ?thesis
    proof (cases "snd ?f = Unset")
      case False
      with e show ?thesis
        by (simp add: locate_def record_locator_def exactMatch_attempt partialMatch_attempt
            inquiryNumberSearch_attempt timestampSearch_attempt
            generatedTimestampSearch_attempt first_success_Cons)
    next
      case f: True
      show ?thesis
      proof (cases "snd ?i = Unset")
        case False
        with e f show ?thesis
          by (simp add: locate_def record_locator_def exactMatch_attempt partialMatch_attempt
              inquiryNumberSearch_attempt timestampSearch_attempt
              generatedTimestampSearch_attempt first_success_Cons)
      next
        case i: True
        show ?thesis
        proof (cases "snd ?t = Unset")
          case False
          with e f i show ?thesis
            by (simp add: locate_def record_locator_def exactMatch_attempt partialMatch_attempt
                inquiryNumberSearch_attempt timestampSearch_attempt
                generatedTimestampSearch_attempt timestamp_proximity_def first_success_Cons)
        next
          case True
          with e f i show ?thesis
            by (simp add: locate_def record_locator_def exactMatch_attempt partialMatch_attempt
                inquiryNumberSearch_attempt timestampSearch_attempt
                generatedTimestampSearch_attempt timestamp_proximity_def first_success_Cons)
        qed
      qed
    qed
  qed
qed

text \<open>
  C1. The search of the handler is the ordered run of the four strategies: exact match
  on \<open>quotationPdf\<close>, case-insensitive match of the escaped file name on
  \<open>quotationPdf\<close>, the inquiry number embedded in the file name (the quotation by the
  inquiry's identifier, then by the inquiry number itself), and the timestamp window in
  its two shapes. Its outcome is that of the first strategy that yields a quotation, and
  the database calls it records are those of the strategies up to and including that
  one: no call of a later strategy is made.
\<close>

theorem locate_is_first_success:
  "locate filename w =
     (snd (record_locator w filename),
      w\<lparr>queryLog := queryLog w @ fst (record_locator w filename)\<rparr>)"
proof -
  have "locate filename w =
      (snd (record_locator w filename), ext w (fst (record_locator w filename)))"
    by (rule locate_record_locator)
  also have "ext w (fst (record_locator w filename)) =
      w\<lparr>queryLog := queryLog w @ fst (record_locator w filename)\<rparr>"
    by (simp add: ext_def)
  finally show ?thesis .
qed

subsection \<open>The timestamp window\<close>

lemma newest_eq_None [simp]: "(newest xs = None) = (xs = [])"
  by (induction xs) (auto split: option.splits)

lemma newest_Some:
  "newest xs = Some q \<Longrightarrow> q \<in> set xs \<and> (\<forall>r\<in>set xs. createdAt r \<le> createdAt q)"
proof (induction xs arbitrary: q)
  case Nil
  then show ?case by simp
next
  case (Cons x xs)
  show ?case
  proof (cases "newest xs")
    case None
    with Cons.prems show ?thesis by simp
  next
    case (Some r)
    with Cons.IH have r: "r \<in> set xs" "\<forall>y\<in>set xs. createdAt y \<le> createdAt r" by auto
    from Some Cons.prems have "q = (if createdAt x < createdAt r then r else x)"
      by (simp split: if_splits)
    with r show ?thesis by (auto split: if_splits)
  qed
qed

lemma newest_filter_in_window:
  "newest_in_window qs t tol (found (newest (filter (in_window t tol) qs)))"
proof (cases "newest (filter (in_window t tol) qs)")
  case None
  then have "filter (in_window t tol) qs = []" by simp
  then have "list_all (\<lambda>q. \<not> in_window t tol q) qs"
    by (simp add: filter_empty_conv list_all_iff)
  with None show ?thesis by (simp add: newest_in_window_def found_def)
next
  case (Some q)
  from newest_Some [OF Some] show ?thesis
    using Some by (auto simp: newest_in_window_def found_def list_all_iff)
qed

lemma stripPrefix_append [simp]: "stripPrefix p (p @ s) = Some s"
  by (induction p) simp_all

lemma stripPrefix_Some: "stripPrefix p s = Some r \<Longrightarrow> s = p @ r"
  by (induction p s rule: stripPrefix.induct) (auto split: if_splits)

lemma firstMatch_here: "m s = Some r \<Longrightarrow> firstMatch m s = Some r"
  by (cases s) simp_all

lemma takeWhile_run:
  "list_all P xs \<Longrightarrow> \<not> P c \<Longrightarrow> takeWhile P (xs @ c # rest) = xs"
  by (induction xs) simp_all

lemma dropWhile_run:
  "list_all P xs \<Longrightarrow> \<not> P c \<Longrightarrow> dropWhile P (xs @ c # rest) = c # rest"
  by (induction xs) simp_all

lemma timestampMatchAt_shape:
  assumes "ds \<noteq> []" "list_all isDigit ds"
  shows "firstMatch timestampMatchAt (''quotation-'' @ ds @ ''-'' @ rest) = Some ds"
proof -
  have nd: "\<not> isDigit CHR ''-''" by (simp add: isDigit_def)
  have "stripPrefix ''quotation-'' (''quotation-'' @ ds @ ''-'' @ rest) = Some (ds @ CHR ''-'' # rest)"
    using stripPrefix_append [of "''quotation-''" "ds @ CHR ''-'' # rest"] by simp
  then have "timestampMatchAt (''quotation-'' @ ds @ ''-'' @ rest) = Some ds"
    using assms takeWhile_run [OF assms(2) nd, of rest] dropWhile_run [OF assms(2) nd, of rest]
    by (simp add: timestampMatchAt_def)
  then show ?thesis by (rule firstMatch_here)
qed

lemma generatedTimestampMatchAt_shape:
  assumes "ds \<noteq> []" "list_all isDigit ds" "ref \<noteq> []" "CHR ''_'' \<notin> set ref"
  shows "firstMatch generatedTimestampMatchAt (''quotation_'' @ ref @ ''_'' @ ds @ ''.pdf'') = Some ds"
proof -
  have nd: "\<not> isDigit CHR ''.''" by (simp add: isDigit_def)
  have r: "list_all (\<lambda>c. c \<noteq> CHR ''_'') ref"
    using assms(4) by (auto simp: list_all_iff)
  have nu: "\<not> (\<lambda>c. c \<noteq> CHR ''_'') CHR ''_''" by simp
  have "stripPrefix ''quotation_'' (''quotation_'' @ ref @ ''_'' @ ds @ ''.pdf'')
          = Some (ref @ CHR ''_'' # ds @ ''.pdf'')"
    using stripPrefix_append [of "''quotation_''" "ref @ CHR ''_'' # ds @ ''.pdf''"] by simp
  moreover have "takeWhile isDigit (ds @ ''.pdf'') = ds" "dropWhile isDigit (ds @ ''.pdf'') = ''.pdf''"
    using takeWhile_run [OF assms(2) nd, of "''pdf''"] dropWhile_run [OF assms(2) nd, of "''pdf''"]
    by simp_all
  ultimately have "generatedTimestampMatchAt (''quotation_'' @ ref @ ''_'' @ ds @ ''.pdf'') = Some ds"
    using assms takeWhile_run [OF r nu, of "ds @ ''.pdf''"] dropWhile_run [OF r nu, of "ds @ ''.pdf''"]
    by (simp add: generatedTimestampMatchAt_def)
  then show ?thesis by (rule firstMatch_here)
qed

lemma generated_needs_underscore:
  "CHR ''_'' \<notin> set s \<Longrightarrow> firstMatch generatedTimestampMatchAt s = None"
proof (induction s)
  case Nil
  show ?case by (simp add: generatedTimestampMatchAt_def)
next
  case (Cons c cs)
  have "stripPrefix ''quotation_'' (c # cs) = None"
  proof (cases "stripPrefix ''quotation_'' (c # cs)")
    case None
    then show ?thesis .
  next
    case (Some r)
    then have "c # cs = ''quotation_'' @ r" by (rule stripPrefix_Some)
    then have "CHR ''_'' \<in> set (c # cs)" by simp
    with Cons.prems show ?thesis by simp
  qed
  then have "generatedTimestampMatchAt (c # cs) = None"
    by (simp add: generatedTimestampMatchAt_def)
  with Cons show ?case by simp
qed

lemma parseInt_nonneg: "0 \<le> parseInt ds"
proof -
  have "0 \<le> n \<Longrightarrow> 0 \<le> fold (\<lambda>c n. 10 * n + int (digitValue c)) ds n" for n
    by (induction ds arbitrary: n) simp_all
  then show ?thesis by (simp add: parseInt_def)
qed

lemma window_dates_valid:
  "parseInt ds + tol \<le> 8640000000000000 \<Longrightarrow> 0 \<le> tol \<Longrightarrow> tol \<le> 10000 \<Longrightarrow>
     validDate (parseInt ds - tol) \<and> validDate (parseInt ds + tol)"
  using parseInt_nonneg [of ds] by (simp add: validDate_def)

lemma timestampSearch_window:
  assumes "firstMatch timestampMatchAt filename = Some ds"
    and "parseInt ds + 5000 \<le> 8640000000000000"
  shows "fst (timestampSearch filename (Unset, w)) =
           found (newest (filter (in_window (parseInt ds) 5000) (quotations w)))"
  using assms window_dates_valid [of ds 5000]
  by (simp add: timestampSearch_attempt timestamp_window_def)

lemma generatedTimestampSearch_window:
  assumes "firstMatch generatedTimestampMatchAt filename = Some ds"
    and "parseInt ds + 10000 \<le> 8640000000000000"
  shows "fst (generatedTimestampSearch filename (Unset, w)) =
           found (newest (filter (in_window (parseInt ds) 10000) (quotations w)))"
  using assms window_dates_valid [of ds 10000]
  by (simp add: generatedTimestampSearch_attempt timestamp_window_def)

lemma generatedTimestampSearch_inert:
  assumes "firstMatch generatedTimestampMatchAt filename = None"
  shows "fst (generatedTimestampSearch filename sw) = fst sw"
  using assms
  by (cases sw) (simp add: generatedTimestampSearch_attempt timestamp_window_def)

lemma blocks_keep_collections:
  "quotations (snd (exactMatch filename w)) = quotations w"
  "quotations (snd (partialMatch filename sw)) = quotations (snd sw)"
  "quotations (snd (inquiryNumberSearch filename sw)) = quotations (snd sw)"
  "quotations (snd (timestampSearch filename sw)) = quotations (snd sw)"
  "quotations (snd (generatedTimestampSearch filename sw)) = quotations (snd sw)"
      apply (simp add: exactMatch_attempt)
     apply (cases sw; simp add: partialMatch_attempt)
    apply (cases sw; simp add: inquiryNumberSearch_attempt)
   apply (cases sw; simp add: timestampSearch_attempt)
  apply (cases sw; simp add: generatedTimestampSearch_attempt)
  done

text \<open>
  C5. A file name \<open>quotation-<ts>-<rand>.pdf\<close> that the first three search blocks
  leave unresolved resolves to a quotation created within 5000 ms of \<open><ts>\<close>, and a
  file name \<open>quotation_<ref>_<ts>.pdf\<close> that the first four blocks leave unresolved
  resolves to one created within 10000 ms of \<open><ts>\<close>; in both cases no quotation
  within the window was created later than the one chosen, and the search yields
  nothing exactly when no quotation lies within the window. Here \<open><ts>\<close> is a
  timestamp: the end of its window is a valid date.
\<close>

theorem timestamp_window_selection:
  assumes "ds \<noteq> []" and "list_all isDigit ds"
  shows
    "(list_all isDigit rnd \<and> parseInt ds + 5000 \<le> 8640000000000000 \<and>
      fst (inquiryNumberSearch (''quotation-'' @ ds @ ''-'' @ rnd @ ''.pdf'')
            (partialMatch (''quotation-'' @ ds @ ''-'' @ rnd @ ''.pdf'')
              (exactMatch (''quotation-'' @ ds @ ''-'' @ rnd @ ''.pdf'') w))) = Unset \<longrightarrow>
      newest_in_window (quotations w) (parseInt ds) 5000
        (fst (locate (''quotation-'' @ ds @ ''-'' @ rnd @ ''.pdf'') w))) \<and>
     (ref \<noteq> [] \<and> CHR ''_'' \<notin> set ref \<and> parseInt ds + 10000 \<le> 8640000000000000 \<and>
      fst (timestampSearch (''quotation_'' @ ref @ ''_'' @ ds @ ''.pdf'')
            (inquiryNumberSearch (''quotation_'' @ ref @ ''_'' @ ds @ ''.pdf'')
              (partialMatch (''quotation_'' @ ref @ ''_'' @ ds @ ''.pdf'')
                (exactMatch (''quotation_'' @ ref @ ''_'' @ ds @ ''.pdf'') w)))) = Unset \<longrightarrow>
      newest_in_window (quotations w) (parseInt ds) 10000
        (fst (locate (''quotation_'' @ ref @ ''_'' @ ds @ ''.pdf'') w)))"
proof (intro conjI impI)
  let ?f = "''quotation-'' @ ds @ ''-'' @ rnd @ ''.pdf''"
  assume a: "list_all isDigit rnd \<and> parseInt ds + 5000 \<le> 8640000000000000 \<and>
      fst (inquiryNumberSearch ?f (partialMatch ?f (exactMatch ?f w))) = Unset"
  obtain w3 where w3: "inquiryNumberSearch ?f (partialMatch ?f (exactMatch ?f w)) = (Unset, w3)"
    using a by (cases "inquiryNumberSearch ?f (partialMatch ?f (exactMatch ?f w))") auto
  have qs: "quotations w3 = quotations w"
    using blocks_keep_collections(3) [of ?f "partialMatch ?f (exactMatch ?f w)"]
      blocks_keep_collections(2) [of ?f "exactMatch ?f w"] blocks_keep_collections(1) [of ?f w]
      w3 by simp
  have m: "firstMatch timestampMatchAt ?f = Some ds"
    using timestampMatchAt_shape [OF assms, of "rnd @ ''.pdf''"] by simp
  have v: "parseInt ds + 5000 \<le> 8640000000000000"
    using a by simp
  have nd: "\<forall>c\<in>set ds \<union> set rnd. c \<noteq> CHR ''_''"
    using assms(2) a by (auto simp: list_all_iff isDigit_def)
  then have "CHR ''_'' \<notin> set ?f" by auto
  then have g: "firstMatch generatedTimestampMatchAt ?f = None"
    by (rule generated_needs_underscore)
  have "fst (locate ?f w) = found (newest (filter (in_window (parseInt ds) 5000) (quotations w)))"
    unfolding locate_def w3
    using generatedTimestampSearch_inert [OF g] timestampSearch_window [OF m v, of w3] qs
    by simp
  then show "newest_in_window (quotations w) (parseInt ds) 5000 (fst (locate ?f w))"
    by (simp add: newest_filter_in_window)
next
  let ?f = "''quotation_'' @ ref @ ''_'' @ ds @ ''.pdf''"
  assume a: "ref \<noteq> [] \<and> CHR ''_'' \<notin> set ref \<and> parseInt ds + 10000 \<le> 8640000000000000 \<and>
      fst (timestampSearch ?f (inquiryNumberSearch ?f (partialMatch ?f (exactMatch ?f w)))) = Unset"
  obtain w4 where w4:
    "timestampSearch ?f (inquiryNumberSearch ?f (partialMatch ?f (exactMatch ?f w))) = (Unset, w4)"
    using a
    by (cases "timestampSearch ?f (inquiryNumberSearch ?f (partialMatch ?f (exactMatch ?f w)))")
      auto
  have qs: "quotations w4 = quotations w"
    using blocks_keep_collections(4) [of ?f "inquiryNumberSearch ?f (partialMatch ?f (exactMatch ?f w))"]
      blocks_keep_collections(3) [of ?f "partialMatch ?f (exactMatch ?f w)"]
      blocks_keep_collections(2) [of ?f "exactMatch ?f w"] blocks_keep_collections(1) [of ?f w]
      w4 by simp
  have m: "firstMatch generatedTimestampMatchAt ?f = Some ds"
    using generatedTimestampMatchAt_shape [OF assms, of ref] a by simp
  have v: "parseInt ds + 10000 \<le> 8640000000000000"
    using a by simp
  have "fst (locate ?f w) = found (newest (filter (in_window (parseInt ds) 10000) (quotations w)))"
    unfolding locate_def w4
    using generatedTimestampSearch_window [OF m v, of w4] qs by simp
  then show "newest_in_window (quotations w) (parseInt ds) 10000 (fst (locate ?f w))"
    by (simp add: newest_filter_in_window)
qed

lemmas sample_defs =
  unlinkedWorld_def sampleWorld_def sampleQuotation_def laterQuotation_def sampleInquiry_def
  samplePart_def storedWorld_def

lemmas locator_defs =
  locate_record_locator record_locator_def exact_pointer_def fuzzy_pointer_def
  embedded_inquiry_number_def timestamp_proximity_def timestamp_window_def in_window_def
  ext_def inquiryMatchAt_def timestampMatchAt_def generatedTimestampMatchAt_def isDigit_def
  parseInt_def digitValue_def toLowerCase_def toLowerChar_def found_def validDate_def
  first_success_Cons

lemmas block_defs =
  exactMatch_attempt partialMatch_attempt inquiryNumberSearch_attempt timestampSearch_attempt
  generatedTimestampSearch_attempt exact_pointer_def fuzzy_pointer_def
  embedded_inquiry_number_def timestamp_window_def in_window_def
  ext_def inquiryMatchAt_def timestampMatchAt_def generatedTimestampMatchAt_def isDigit_def
  parseInt_def digitValue_def toLowerCase_def toLowerChar_def found_def validDate_def
  first_success_Cons

theorem timestamp_window_selection_witness:
  "''1700000004000'' \<noteq> [] \<and> list_all isDigit ''1700000004000'' \<and> list_all isDigit ''7421'' \<and>
   parseInt ''1700000004000'' + 5000 \<le> 8640000000000000 \<and>
   fst (inquiryNumberSearch ''quotation-1700000004000-7421.pdf''
         (partialMatch ''quotation-1700000004000-7421.pdf''
           (exactMatch ''quotation-1700000004000-7421.pdf'' unlinkedWorld))) = Unset \<and>
   newest_in_window (quotations unlinkedWorld) 1700000004000 5000
     (fst (locate ''quotation-1700000004000-7421.pdf'' unlinkedWorld)) \<and>
   fst (locate ''quotation-1700000004000-7421.pdf'' unlinkedWorld) = Found laterQuotation \<and>
   ''x'' \<noteq> [] \<and> CHR ''_'' \<notin> set ''x'' \<and>
   parseInt ''1700000004000'' + 10000 \<le> 8640000000000000 \<and>
   fst (timestampSearch ''quotation_x_1700000004000.pdf''
         (inquiryNumberSearch ''quotation_x_1700000004000.pdf''
           (partialMatch ''quotation_x_1700000004000.pdf''
             (exactMatch ''quotation_x_1700000004000.pdf'' unlinkedWorld)))) = Unset \<and>
   newest_in_window (quotations unlinkedWorld) 1700000004000 10000
     (fst (locate ''quotation_x_1700000004000.pdf'' unlinkedWorld))"
proof -
  have d: "''1700000004000'' \<noteq> []" "list_all isDigit ''1700000004000''"
    by (simp_all add: isDigit_def)
  have r: "list_all isDigit ''7421''" "''x'' \<noteq> []" "CHR ''_'' \<notin> set ''x''"
    by (simp_all add: isDigit_def)
  have p: "parseInt ''1700000004000'' = 1700000004000"
    by (simp add: parseInt_def digitValue_def)
  have e1: "fst (inquiryNumberSearch ''quotation-1700000004000-7421.pdf''
         (partialMatch ''quotation-1700000004000-7421.pdf''
           (exactMatch ''quotation-1700000004000-7421.pdf'' unlinkedWorld))) = Unset"
    by (simp add: block_defs sample_defs)
  have e2: "fst (timestampSearch ''quotation_x_1700000004000.pdf''
         (inquiryNumberSearch ''quotation_x_1700000004000.pdf''
           (partialMatch ''quotation_x_1700000004000.pdf''
             (exactMatch ''quotation_x_1700000004000.pdf'' unlinkedWorld)))) = Unset"
    by (simp add: block_defs sample_defs)
  have l: "fst (locate ''quotation-1700000004000-7421.pdf'' unlinkedWorld) = Found laterQuotation"
    by (simp add: locator_defs sample_defs)
  show ?thesis
    using timestamp_window_selection [OF d, of "''7421''" unlinkedWorld "''x''"] d r p e1 e2 l
    by simp
qed

subsection \<open>No quotation found\<close>

text \<open>
  When the requested file is not there and the search ends without a quotation and
  without an exception (every look-up ran and none found one), the handler answers with
  status 404 and a body of three fields: the success flag (false), the message and the
  file name. The PDF service is not called, and the collections and the files are as
  before; the only trace of the request is the record of the look-ups of the search.
\<close>

lemma unresolved_is_not_found:
  assumes "\<not> existsSync w (quotationsPath filename)"
    and "fst (locate filename w) = Unset"
  shows "fst (handleQuotationPDF env filename download w) =
           Json 404
             [(''success'', JBool False),
              (''message'', JString ''Quotation PDF not found and cannot be regenerated''),
              (''filename'', JString filename)] \<and>
         builderLog (snd (handleQuotationPDF env filename download w)) = builderLog w \<and>
         quotations (snd (handleQuotationPDF env filename download w)) = quotations w \<and>
         inquiries (snd (handleQuotationPDF env filename download w)) = inquiries w \<and>
         files (snd (handleQuotationPDF env filename download w)) = files w \<and>
         queryLog (snd (handleQuotationPDF env filename download w)) =
           queryLog w @ fst (record_locator w filename)"
proof -
  from assms(2) have "locate filename w = (Unset, ext w (fst (record_locator w filename)))"
    by (simp add: locate_record_locator)
  with assms(1) show ?thesis
    by (simp add: handleQuotationPDF_def)
qed

lemma unresolved_is_not_found_sample:
  "\<not> existsSync unlinkedWorld (quotationsPath ''quotation-1700000009000-7421.pdf'') \<and>
   fst (locate ''quotation-1700000009000-7421.pdf'' unlinkedWorld) = Unset \<and>
   fst (handleQuotationPDF sampleEnv ''quotation-1700000009000-7421.pdf'' None unlinkedWorld) =
     Json 404
       [(''success'', JBool False),
        (''message'', JString ''Quotation PDF not found and cannot be regenerated''),
        (''filename'', JString ''quotation-1700000009000-7421.pdf'')] \<and>
   builderLog (snd (handleQuotationPDF sampleEnv ''quotation-1700000009000-7421.pdf'' None
     unlinkedWorld)) = [] \<and>
   quotations (snd (handleQuotationPDF sampleEnv ''quotation-1700000009000-7421.pdf'' None
     unlinkedWorld)) = quotations unlinkedWorld"
proof -
  have a: "\<not> existsSync unlinkedWorld (quotationsPath ''quotation-1700000009000-7421.pdf'')"
    by (simp add: existsSync_def sample_defs)
  have b: "fst (locate ''quotation-1700000009000-7421.pdf'' unlinkedWorld) = Unset"
    by (simp add: locator_defs sample_defs)
  have c: "builderLog unlinkedWorld = []"
    by (simp add: sample_defs)
  show ?thesis
    using unresolved_is_not_found [OF a b, of sampleEnv None] a b c by simp
qed

text \<open>
  C8 fails on the code at this request. Nothing is stored: there is no quotation for any
  strategy to find, no inquiry and no file. The requested name has the shape
  \<open>quotation-<ts>-<rand>.pdf\<close> with a timestamp beyond the range of \<open>Date\<close>. The
  exact and the partial match find nothing, the name carries no inquiry number, and in
  the fourth block the bounds of the window are invalid dates: the window query is
  rejected with a cast error, the exception leaves the \<open>try\<close> block, and the handler
  answers with status 500 and the message of the exception, not with 404. The earlier
  route, whose only search is the exact match, answers 404 to the same request.
\<close>

theorem out_of_range_timestamp_is_server_error:
  "quotations emptyWorld = [] \<and> inquiries emptyWorld = [] \<and>
   \<not> existsSync emptyWorld (quotationsPath ''quotation-9999999999999999-1.pdf'') \<and>
   handleQuotationPDF sampleEnv ''quotation-9999999999999999-1.pdf'' None emptyWorld =
     (Json 500
        [(''success'', JBool False),
         (''message'', JString ''Error regenerating PDF''),
         (''error'', JString castDateMessage)],
      emptyWorld
        \<lparr>queryLog :=
           [QuotationFindOne (PdfEquals ''quotation-9999999999999999-1.pdf''),
            QuotationFindOne (PdfRegex (escapeRegExp ''quotation-9999999999999999-1.pdf''))]\<rparr>)"
proof -
  have l: "locate ''quotation-9999999999999999-1.pdf'' emptyWorld =
      (Thrown castDateMessage,
       emptyWorld
         \<lparr>queryLog :=
            [QuotationFindOne (PdfEquals ''quotation-9999999999999999-1.pdf''),
             QuotationFindOne (PdfRegex (escapeRegExp ''quotation-9999999999999999-1.pdf''))]\<rparr>)"
    by (simp add: locator_defs emptyWorld_def)
  have a: "\<not> existsSync emptyWorld (quotationsPath ''quotation-9999999999999999-1.pdf'')"
    by (simp add: existsSync_def emptyWorld_def)
  have h: "handleQuotationPDF sampleEnv ''quotation-9999999999999999-1.pdf'' None emptyWorld =
     (Json 500
        [(''success'', JBool False),
         (''message'', JString ''Error regenerating PDF''),
         (''error'', JString castDateMessage)],
      emptyWorld
        \<lparr>queryLog :=
           [QuotationFindOne (PdfEquals ''quotation-9999999999999999-1.pdf''),
            QuotationFindOne (PdfRegex (escapeRegExp ''quotation-9999999999999999-1.pdf''))]\<rparr>)"
    using a by (simp add: handleQuotationPDF_def l regenerationError_def)
  have c: "quotations emptyWorld = []" "inquiries emptyWorld = []"
    by (simp_all add: emptyWorld_def)
  from c a h show ?thesis
    by (intro conjI)
qed

subsection \<open>The rows of the PDF\<close>






subsection \<open>The wait of the interceptor is bounded\<close>

lemma pollTicks_Some:
  "pollTicks ready t n = Some u \<Longrightarrow> ready u \<and> t \<le> u \<and> u < t + 100 * n"
proof (induction n arbitrary: t)
  case 0
  then show ?case by simp
next
  case (Suc n)
  show ?case
  proof (cases "ready t")
    case True
    with Suc.prems show ?thesis by simp
  next
    case False
    with Suc.prems have "pollTicks ready (t + 100) n = Some u" by simp
    from Suc.IH [OF this] show ?thesis by simp
  qed
qed

lemma pollTicks_None:
  "(\<forall>u<t + 100 * n. \<not> ready u) \<Longrightarrow> pollTicks ready t n = None"
proof (induction n arbitrary: t)
  case 0
  show ?case by simp
next
  case (Suc n)
  then have "\<not> ready t" by simp
  moreover have "pollTicks ready (t + 100) n = None"
    using Suc.prems by (intro Suc.IH) simp
  ultimately show ?case by simp
qed

text \<open>
  C9. A request for a quotation PDF that arrives before the handler is registered is
  answered within 5000 ms of its arrival, by the handler when one was registered at a
  check and sent its response in time, else by the timeout; when no handler is
  registered during the whole period the answer, sent at 5000 ms, has status 503 and a
  body of two fields, the success flag (false) and the message.
\<close>

theorem interceptor_wait_is_bounded:
  assumes "startsWith path ''/quotations/''" and "\<not> ready 0"
  shows "(\<exists>t r. quotationPDFInterceptor path ready handler = Reply t r \<and> t \<le> 5000) \<and>
         ((\<forall>t<5000. \<not> ready t) \<longrightarrow>
            quotationPDFInterceptor path ready handler =
              Reply 5000
                (Json 503
                   [(''success'', JBool False),
                    (''message'', JString ''Service temporarily unavailable'')]))"
proof
  show "\<exists>t r. quotationPDFInterceptor path ready handler = Reply t r \<and> t \<le> 5000"
    using assms
    by (auto simp: quotationPDFInterceptor_def split: option.splits)
next
  show "(\<forall>t<5000. \<not> ready t) \<longrightarrow>
          quotationPDFInterceptor path ready handler =
            Reply 5000
              (Json 503
                 [(''success'', JBool False),
                  (''message'', JString ''Service temporarily unavailable'')])"
  proof
    assume "\<forall>t<5000. \<not> ready t"
    then have "pollTicks ready 100 49 = None"
      by (intro pollTicks_None) simp
    with assms show "quotationPDFInterceptor path ready handler =
        Reply 5000
          (Json 503
             [(''success'', JBool False),
              (''message'', JString ''Service temporarily unavailable'')])"
      by (simp add: quotationPDFInterceptor_def serviceUnavailable_def)
  qed
qed

theorem interceptor_wait_is_bounded_witness:
  "startsWith ''/quotations/quotation-1700000000000-7421.pdf'' ''/quotations/'' \<and>
   \<not> (\<lambda>t. 250 \<le> t) (0::nat) \<and>
   quotationPDFInterceptor ''/quotations/quotation-1700000000000-7421.pdf'' (\<lambda>t. 250 \<le> t)
     (\<lambda>t. Some (40, Json 404 [])) = Reply 340 (Json 404 []) \<and>
   \<not> (\<lambda>t. False) (0::nat) \<and>
   quotationPDFInterceptor ''/quotations/quotation-1700000000000-7421.pdf'' (\<lambda>t. False)
     (\<lambda>t. Some (40, Json 404 [])) =
     Reply 5000
       (Json 503
          [(''success'', JBool False),
           (''message'', JString ''Service temporarily unavailable'')])"
proof -
  have p: "startsWith ''/quotations/quotation-1700000000000-7421.pdf'' ''/quotations/''"
    by simp
  have a: "quotationPDFInterceptor ''/quotations/quotation-1700000000000-7421.pdf''
      (\<lambda>t. 250 \<le> t) (\<lambda>t. Some (40, Json 404 [])) = Reply 340 (Json 404 [])"
    by (simp add: quotationPDFInterceptor_def eval_nat_numeral)
  have r: "\<not> (\<lambda>t. False) (0::nat)" by simp
  show ?thesis
    using interceptor_wait_is_bounded [OF p r, of "\<lambda>t. Some (40, Json 404 [])"] a p
    by simp
qed

subsection \<open>What a request changes\<close>

lemma findInquiry_ext:
  "\<exists>calls. findInquiry env q w = (fst (findInquiry env q w), ext w calls)"
  by (auto simp: findInquiry_def Inquiry_findById_def Inquiry_findOne_def logged_ext)

lemma findInquiry_of_ext [simp]: "fst (findInquiry env q (ext w calls)) = fst (findInquiry env q w)"
  by (simp add: findInquiry_def Inquiry_findById_def Inquiry_findOne_def)

lemma find_in_set: "find P xs = Some x \<Longrightarrow> x \<in> set xs \<and> P x"
  by (induction xs) (auto split: if_splits)

lemma newest_member: "newest xs = Some q \<Longrightarrow> q \<in> set xs"
  using newest_Some by blast

lemma record_locator_member:
  assumes "snd (record_locator w filename) = Found q"
  shows "q \<in> set (quotations w)"
proof -
  have e: "snd (exact_pointer w filename) = Found q \<Longrightarrow> q \<in> set (quotations w)"
    by (auto simp: exact_pointer_def found_def dest: find_in_set split: option.splits)
  have f: "snd (fuzzy_pointer w filename) = Found q \<Longrightarrow> q \<in> set (quotations w)"
    by (auto simp: fuzzy_pointer_def found_def dest: find_in_set split: option.splits)
  have i: "snd (embedded_inquiry_number w filename) = Found q \<Longrightarrow> q \<in> set (quotations w)"
    by (auto simp: embedded_inquiry_number_def first_success_Cons found_def dest: find_in_set
        split: option.splits if_splits)
  have t: "snd (timestamp_window shape tol w filename) = Found q \<Longrightarrow> q \<in> set (quotations w)"
    for shape tol
    by (auto simp: timestamp_window_def found_def dest: newest_member
        split: option.splits if_splits)
  have p: "snd (timestamp_proximity w filename) = Found q \<Longrightarrow> q \<in> set (quotations w)"
    using t by (auto simp: timestamp_proximity_def first_success_Cons split: if_splits)
  from assms e f i p show ?thesis
    by (auto simp: record_locator_def first_success_Cons split: if_splits)
qed

lemma find_updateFirst:
  "(\<And>y. P y \<Longrightarrow> P (f y)) \<Longrightarrow> find P (updateFirst P f xs) = map_option f (find P xs)"
  by (induction xs) auto

lemma find_member: "x \<in> set xs \<Longrightarrow> P x \<Longrightarrow> \<exists>y. find P xs = Some y"
  by (induction xs) auto

lemma regenerate_steps:
  assumes "fst (findInquiry env q w) = Some inquiry"
    and "generateQuotationPDF env inquiry (preparePdfQuotationData q inquiry (clock w))
           (clock w) (files w) = Inr (pdf, fs)"
  shows "filePath pdf \<notin> fs \<Longrightarrow>
           quotations (snd (regenerate env filename disposition q w)) = quotations w"
    and "fileName pdf = filename \<Longrightarrow>
           quotations (snd (regenerate env filename disposition q w)) = quotations w"
    and "saveError env (q\<lparr>quotationPdf := Some (fileName pdf)\<rparr>) \<noteq> None \<Longrightarrow>
           quotations (snd (regenerate env filename disposition q w)) = quotations w"
    and "filePath pdf \<in> fs \<Longrightarrow> fileName pdf \<noteq> filename \<Longrightarrow>
         saveError env (q\<lparr>quotationPdf := Some (fileName pdf)\<rparr>) = None \<Longrightarrow>
           fst (regenerate env filename disposition q w) =
             SendFile (pdfHeaders disposition (fileName pdf)) (filePath pdf) \<and>
           quotations (snd (regenerate env filename disposition q w)) =
             updateFirst (\<lambda>d. quotation_id d = quotation_id q)
               (\<lambda>d. d\<lparr>quotationPdf := Some (fileName pdf), updatedAt := clock w\<rparr>)
               (quotations w) \<and>
           files (snd (regenerate env filename disposition q w)) = fs"
    and "filePath pdf \<in> fs \<Longrightarrow> fileName pdf = filename \<Longrightarrow>
           fst (regenerate env filename disposition q w) =
             SendFile (pdfHeaders disposition (fileName pdf)) (filePath pdf) \<and>
           files (snd (regenerate env filename disposition q w)) = fs"
proof -
  obtain calls where "findInquiry env q w = (fst (findInquiry env q w), ext w calls)"
    using findInquiry_ext by blast
  with assms(1) have fi: "findInquiry env q w = (Some inquiry, ext w calls)" by simp
  show "filePath pdf \<notin> fs \<Longrightarrow>
           quotations (snd (regenerate env filename disposition q w)) = quotations w"
    unfolding regenerate_def fi using assms(2)
    by (simp add: Let_def existsSync_def)
  show "fileName pdf = filename \<Longrightarrow>
           quotations (snd (regenerate env filename disposition q w)) = quotations w"
    unfolding regenerate_def fi using assms(2)
    by (simp add: Let_def existsSync_def)
  show "saveError env (q\<lparr>quotationPdf := Some (fileName pdf)\<rparr>) \<noteq> None \<Longrightarrow>
           quotations (snd (regenerate env filename disposition q w)) = quotations w"
    unfolding regenerate_def fi using assms(2)
    by (auto simp: Let_def existsSync_def quotation_save_def logged_def)
  show "filePath pdf \<in> fs \<Longrightarrow> fileName pdf \<noteq> filename \<Longrightarrow>
         saveError env (q\<lparr>quotationPdf := Some (fileName pdf)\<rparr>) = None \<Longrightarrow>
           fst (regenerate env filename disposition q w) =
             SendFile (pdfHeaders disposition (fileName pdf)) (filePath pdf) \<and>
           quotations (snd (regenerate env filename disposition q w)) =
             updateFirst (\<lambda>d. quotation_id d = quotation_id q)
               (\<lambda>d. d\<lparr>quotationPdf := Some (fileName pdf), updatedAt := clock w\<rparr>)
               (quotations w) \<and>
           files (snd (regenerate env filename disposition q w)) = fs"
    unfolding regenerate_def fi using assms(2)
    by (simp add: Let_def existsSync_def quotation_save_def logged_def)
  show "filePath pdf \<in> fs \<Longrightarrow> fileName pdf = filename \<Longrightarrow>
           fst (regenerate env filename disposition q w) =
             SendFile (pdfHeaders disposition (fileName pdf)) (filePath pdf) \<and>
           files (snd (regenerate env filename disposition q w)) = fs"
    unfolding regenerate_def fi using assms(2)
    by (simp add: Let_def existsSync_def)
qed

lemma handle_regenerate:
  assumes "\<not> existsSync w (quotationsPath filename)" and "fst (locate filename w) = Found q"
  shows "handleQuotationPDF env filename download w =
           regenerate env filename
             (if download = Some ''true'' \<or> download = Some ''1'' then ''attachment'' else ''inline'')
             q (ext w (fst (record_locator w filename)))"
proof -
  from assms(2) have "locate filename w = (Found q, ext w (fst (record_locator w filename)))"
    by (simp add: locate_record_locator)
  with assms(1) show ?thesis by (simp add: handleQuotationPDF_def)
qed

subsection \<open>Requests that overlap\<close>

text \<open>
  A request that runs alone is the handler: resumed twice, at its arrival and at the
  return of the service, it gives the response and the state of \<open>handleQuotationPDF\<close>.
\<close>

lemma request_alone:
  "run env [Resume 0, Resume 0] ([Arrived filename download], w) =
     ([Responded (fst (handleQuotationPDF env filename download w))],
      snd (handleQuotationPDF env filename download w))"
proof -
  obtain s w1 where l: "locate filename w = (s, w1)" by (cases "locate filename w")
  show ?thesis
  proof (cases "existsSync w (quotationsPath filename)")
    case True
    then show ?thesis
      by (simp add: run_def untilService_def handleQuotationPDF_def)
  next
    case False
    show ?thesis
    proof (cases s)
      case Unset
      with l False show ?thesis
        by (simp add: run_def untilService_def handleQuotationPDF_def)
    next
      case (Thrown m)
      with l False show ?thesis
        by (simp add: run_def untilService_def handleQuotationPDF_def)
    next
      case (Found q)
      obtain i w2 where f: "findInquiry env q w1 = (i, w2)" by (cases "findInquiry env q w1")
      show ?thesis
      proof (cases i)
        case None
        with l False Found f show ?thesis
          by (simp add: run_def untilService_def handleQuotationPDF_def regenerate_def)
      next
        case (Some inq)
        with l False Found f show ?thesis
          by (simp add: run_def untilService_def handleQuotationPDF_def regenerate_def
              afterService_def Let_def split: sum.splits prod.splits option.splits)
      qed
    qed
  qed
qed

text \<open>
  The first part of the handler reads the collections, the clock and the presence of the
  requested file; it records its look-ups and its call of the service and writes
  nothing else.
\<close>

lemma record_locator_cong:
  "quotations w' = quotations w \<Longrightarrow> inquiries w' = inquiries w \<Longrightarrow>
     record_locator w' filename = record_locator w filename"
  by (simp add: record_locator_def exact_pointer_def fuzzy_pointer_def
      embedded_inquiry_number_def timestamp_proximity_def timestamp_window_def
      cong: option.case_cong prod.case_cong if_cong)

lemma findInquiry_cong:
  "inquiries w' = inquiries w \<Longrightarrow> fst (findInquiry env q w') = fst (findInquiry env q w)"
  by (simp add: findInquiry_def Inquiry_findById_def Inquiry_findOne_def)

lemma findInquiry_keeps:
  "clock (snd (findInquiry env q w)) = clock w"
  "builderLog (snd (findInquiry env q w)) = builderLog w"
  by (simp_all add: findInquiry_def Inquiry_findById_def Inquiry_findOne_def logged_def)

lemma untilService_AwaitingService:
  "(fst (untilService env filename download w) = AwaitingService p) =
     (\<not> existsSync w (quotationsPath filename) \<and>
      (\<exists>q inq. snd (record_locator w filename) = Found q \<and>
         fst (findInquiry env q w) = Some inq \<and>
         p = \<lparr>rebuild_filename = filename,
              rebuild_disposition =
                (if download = Some ''true'' \<or> download = Some ''1''
                 then ''attachment'' else ''inline''),
              rebuild_quotation = q,
              rebuild_inquiry = inq,
              rebuild_data = preparePdfQuotationData q inq (clock w),
              rebuild_calledAt = clock w\<rparr>))"
proof (cases "existsSync w (quotationsPath filename)")
  case True
  then show ?thesis by (simp add: untilService_def)
next
  case False
  let ?w1 = "ext w (fst (record_locator w filename))"
  have l: "locate filename w = (snd (record_locator w filename), ?w1)"
    by (rule locate_record_locator)
  show ?thesis
  proof (cases "snd (record_locator w filename)")
    case Unset
    with False l show ?thesis by (simp add: untilService_def)
  next
    case (Thrown m)
    with False l show ?thesis by (simp add: untilService_def)
  next
    case (Found q)
    obtain i w2 where f: "findInquiry env q ?w1 = (i, w2)" by (cases "findInquiry env q ?w1")
    then have i: "fst (findInquiry env q w) = i"
      using findInquiry_of_ext [of env q w "fst (record_locator w filename)"] by simp
    from f have c: "clock w2 = clock w"
      using findInquiry_keeps(1) [of env q ?w1] by simp
    show ?thesis
    proof (cases i)
      case None
      with False l Found f i show ?thesis by (simp add: untilService_def)
    next
      case (Some inq)
      with False l Found f i c show ?thesis
        by (auto simp: untilService_def Let_def)
    qed
  qed
qed

lemma untilService_builderLog:
  "fst (untilService env filename download w) = AwaitingService p \<Longrightarrow>
     builderLog (snd (untilService env filename download w)) =
       builderLog w @ [(rebuild_inquiry p, rebuild_data p)]"
proof -
  assume a: "fst (untilService env filename download w) = AwaitingService p"
  let ?w1 = "ext w (fst (record_locator w filename))"
  have l: "locate filename w = (snd (record_locator w filename), ?w1)"
    by (rule locate_record_locator)
  from a have e: "\<not> existsSync w (quotationsPath filename)"
    by (simp add: untilService_AwaitingService)
  from a obtain q inq where q: "snd (record_locator w filename) = Found q"
    and inq: "fst (findInquiry env q w) = Some inq"
    and p: "rebuild_inquiry p = inq" "rebuild_data p = preparePdfQuotationData q inq (clock w)"
    by (auto simp: untilService_AwaitingService)
  obtain i w2 where f: "findInquiry env q ?w1 = (i, w2)" by (cases "findInquiry env q ?w1")
  then have i: "i = Some inq"
    using findInquiry_of_ext [of env q w "fst (record_locator w filename)"] inq by simp
  from f have c: "clock w2 = clock w" "builderLog w2 = builderLog w"
    using findInquiry_keeps [of env q ?w1] by simp_all
  from e l q f i c p show ?thesis
    by (simp add: untilService_def Let_def)
qed

lemma untilService_keeps:
  "quotations (snd (untilService env filename download w)) = quotations w"
  "inquiries (snd (untilService env filename download w)) = inquiries w"
  "files (snd (untilService env filename download w)) = files w"
  "clock (snd (untilService env filename download w)) = clock w"
proof -
  let ?w1 = "ext w (fst (record_locator w filename))"
  have l: "locate filename w = (snd (record_locator w filename), ?w1)"
    by (rule locate_record_locator)
  have f: "\<exists>calls. findInquiry env q ?w1 = (fst (findInquiry env q ?w1), ext ?w1 calls)" for q
    by (rule findInquiry_ext)
  have "quotations (snd (untilService env filename download w)) = quotations w \<and>
        inquiries (snd (untilService env filename download w)) = inquiries w \<and>
        files (snd (untilService env filename download w)) = files w \<and>
        clock (snd (untilService env filename download w)) = clock w"
  proof (cases "snd (record_locator w filename)")
    case Unset
    with l show ?thesis by (simp add: untilService_def Let_def)
  next
    case (Thrown m)
    with l show ?thesis by (simp add: untilService_def Let_def)
  next
    case (Found q)
    from f [of q] obtain calls where
      "findInquiry env q ?w1 = (fst (findInquiry env q ?w1), ext ?w1 calls)" by blast
    with l Found show ?thesis
      by (cases "fst (findInquiry env q ?w1)") (simp_all add: untilService_def Let_def)
  qed
  then show "quotations (snd (untilService env filename download w)) = quotations w"
    "inquiries (snd (untilService env filename download w)) = inquiries w"
    "files (snd (untilService env filename download w)) = files w"
    "clock (snd (untilService env filename download w)) = clock w"
    by simp_all
qed

lemma untilService_again:
  assumes "fst (untilService env filename download1 w) = AwaitingService p1"
    and "quotations w' = quotations w" and "inquiries w' = inquiries w"
    and "\<not> existsSync w' (quotationsPath filename)"
  shows "fst (untilService env filename download2 w') =
           AwaitingService
             \<lparr>rebuild_filename = filename,
              rebuild_disposition =
                (if download2 = Some ''true'' \<or> download2 = Some ''1''
                 then ''attachment'' else ''inline''),
              rebuild_quotation = rebuild_quotation p1,
              rebuild_inquiry = rebuild_inquiry p1,
              rebuild_data =
                preparePdfQuotationData (rebuild_quotation p1) (rebuild_inquiry p1) (clock w'),
              rebuild_calledAt = clock w'\<rparr>"
proof -
  from assms(1) obtain q inq where q: "snd (record_locator w filename) = Found q"
    and inq: "fst (findInquiry env q w) = Some inq"
    and p: "rebuild_quotation p1 = q" "rebuild_inquiry p1 = inq"
    by (auto simp: untilService_AwaitingService)
  have "snd (record_locator w' filename) = Found q"
    using q record_locator_cong [OF assms(2,3)] by simp
  moreover have "fst (findInquiry env q w') = Some inq"
    using inq findInquiry_cong [OF assms(3)] by simp
  ultimately show ?thesis
    using assms(4) p by (simp add: untilService_AwaitingService)
qed

lemmas handler_defs =
  handleQuotationPDF_def regenerate_def findInquiry_def quotation_save_def existsSync_def
  quotationsPath_def isHex_def toLowerCase_def
  toLowerChar_def sampleEnv_def sampleService_def digitChar_def regenerationError_def
  Inquiry_findById_def Inquiry_findOne_def logged_def

lemma decimal_clock:
  "decimal 1700000600000 = ''1700000600000''"
  "decimal 1700000600050 = ''1700000600050''"
  by (simp_all add: decimal.simps digitChar_def)

lemmas overlap_defs = run_def untilService_def afterService_def handler_defs

lemma both_suspended:
  "run sampleEnv [Resume 0, Elapse 50, Resume 1]
     ([Arrived ''quotation-1700000000000-7421.pdf'' None,
       Arrived ''quotation-1700000000000-7421.pdf'' None], sampleWorld) =
   ([AwaitingService
       \<lparr>rebuild_filename = ''quotation-1700000000000-7421.pdf'',
        rebuild_disposition = ''inline'',
        rebuild_quotation = sampleQuotation,
        rebuild_inquiry = sampleInquiry,
        rebuild_data = preparePdfQuotationData sampleQuotation sampleInquiry 1700000600000,
        rebuild_calledAt = 1700000600000\<rparr>,
     AwaitingService
       \<lparr>rebuild_filename = ''quotation-1700000000000-7421.pdf'',
        rebuild_disposition = ''inline'',
        rebuild_quotation = sampleQuotation,
        rebuild_inquiry = sampleInquiry,
        rebuild_data = preparePdfQuotationData sampleQuotation sampleInquiry 1700000600050,
        rebuild_calledAt = 1700000600050\<rparr>],
    sampleWorld
      \<lparr>clock := 1700000600050,
       queryLog :=
         [QuotationFindOne (PdfEquals ''quotation-1700000000000-7421.pdf''),
          InquiryFindById ''64b7f0c2a1d3e4f5a6b7c8d9'',
          QuotationFindOne (PdfEquals ''quotation-1700000000000-7421.pdf''),
          InquiryFindById ''64b7f0c2a1d3e4f5a6b7c8d9''],
       builderLog :=
         [(sampleInquiry, preparePdfQuotationData sampleQuotation sampleInquiry 1700000600000),
          (sampleInquiry, preparePdfQuotationData sampleQuotation sampleInquiry 1700000600050)]\<rparr>)"
  by (simp add: overlap_defs locator_defs sample_defs Let_def)

lemma run_append: "run env (first @ rest) s = run env rest (run env first s)"
  by (simp add: run_def)

lemma both_answered:
  "run sampleEnv [Resume 0, Elapse 50, Resume 1, Resume 0, Resume 1]
     ([Arrived ''quotation-1700000000000-7421.pdf'' None,
       Arrived ''quotation-1700000000000-7421.pdf'' None], sampleWorld) =
   ([Responded
       (SendFile (pdfHeaders ''inline'' ''quotation_INQ251031789_1700000600000.pdf'')
          (quotationsPath ''quotation_INQ251031789_1700000600000.pdf'')),
     Responded
       (SendFile (pdfHeaders ''inline'' ''quotation_INQ251031789_1700000600050.pdf'')
          (quotationsPath ''quotation_INQ251031789_1700000600050.pdf''))],
    \<lparr>quotations =
       [sampleQuotation
          \<lparr>quotationPdf := Some ''quotation_INQ251031789_1700000600050.pdf'',
           updatedAt := 1700000600050\<rparr>],
     inquiries = [sampleInquiry],
     files =
       {quotationsPath ''quotation_INQ251031789_1700000600000.pdf'',
        quotationsPath ''quotation_INQ251031789_1700000600050.pdf''},
     clock = 1700000600050,
     queryLog =
       [QuotationFindOne (PdfEquals ''quotation-1700000000000-7421.pdf''),
        InquiryFindById ''64b7f0c2a1d3e4f5a6b7c8d9'',
        QuotationFindOne (PdfEquals ''quotation-1700000000000-7421.pdf''),
        InquiryFindById ''64b7f0c2a1d3e4f5a6b7c8d9'',
        QuotationSave ''64b7f0c2a1d3e4f5a6b7c8e0'',
        QuotationSave ''64b7f0c2a1d3e4f5a6b7c8e0''],
     builderLog =
       [(sampleInquiry, preparePdfQuotationData sampleQuotation sampleInquiry 1700000600000),
        (sampleInquiry, preparePdfQuotationData sampleQuotation sampleInquiry 1700000600050)]\<rparr>)"
proof -
  have "run sampleEnv [Resume 0, Elapse 50, Resume 1, Resume 0, Resume 1]
     ([Arrived ''quotation-1700000000000-7421.pdf'' None,
       Arrived ''quotation-1700000000000-7421.pdf'' None], sampleWorld) =
     run sampleEnv [Resume 0, Resume 1]
       (run sampleEnv [Resume 0, Elapse 50, Resume 1]
          ([Arrived ''quotation-1700000000000-7421.pdf'' None,
            Arrived ''quotation-1700000000000-7421.pdf'' None], sampleWorld))"
    using run_append [of sampleEnv "[Resume 0, Elapse 50, Resume 1]" "[Resume 0, Resume 1]"]
    by simp
  then show ?thesis
    unfolding both_suspended
    by (simp add: overlap_defs sample_defs decimal_clock Let_def insert_commute)
qed

text \<open>
  C2 (amended). Rebuilds of one quotation are not serialised. When a request for a file
  that is not there is suspended at its call of the PDF service and a second request
  for the same file arrives before the service returns, the second request is not made
  to wait: it finds the same quotation and the same inquiry and calls the service as
  well. Two rebuilds of the quotation are then in flight at the same time, and the
  service has been called twice, once by each request.
\<close>

theorem overlapping_requests_both_rebuild:
  assumes "fst (untilService env filename download1 w) = AwaitingService p1"
  shows "fst (run env [Resume 0, Elapse ms, Resume 1]
                ([Arrived filename download1, Arrived filename download2], w)) =
           [AwaitingService p1,
            AwaitingService
              \<lparr>rebuild_filename = filename,
               rebuild_disposition =
                 (if download2 = Some ''true'' \<or> download2 = Some ''1''
                  then ''attachment'' else ''inline''),
               rebuild_quotation = rebuild_quotation p1,
               rebuild_inquiry = rebuild_inquiry p1,
               rebuild_data =
                 preparePdfQuotationData (rebuild_quotation p1) (rebuild_inquiry p1)
                   (clock w + ms),
               rebuild_calledAt = clock w + ms\<rparr>] \<and>
         rebuildsInFlight (quotation_id (rebuild_quotation p1))
           (fst (run env [Resume 0, Elapse ms, Resume 1]
                   ([Arrived filename download1, Arrived filename download2], w))) = 2 \<and>
         builderLog
           (snd (run env [Resume 0, Elapse ms, Resume 1]
                   ([Arrived filename download1, Arrived filename download2], w))) =
           builderLog w @
             [(rebuild_inquiry p1, rebuild_data p1),
              (rebuild_inquiry p1,
               preparePdfQuotationData (rebuild_quotation p1) (rebuild_inquiry p1)
                 (clock w + ms))]"
proof -
  obtain w1 where first: "untilService env filename download1 w = (AwaitingService p1, w1)"
    using assms by (cases "untilService env filename download1 w") simp
  have keeps: "quotations w1 = quotations w" "inquiries w1 = inquiries w"
    "files w1 = files w" "clock w1 = clock w"
    using untilService_keeps [of env filename download1 w] first by simp_all
  have log1: "builderLog w1 = builderLog w @ [(rebuild_inquiry p1, rebuild_data p1)]"
    using untilService_builderLog [OF assms] first by simp
  let ?w1' = "w1\<lparr>clock := clock w1 + ms\<rparr>"
  let ?p2 = "\<lparr>rebuild_filename = filename,
              rebuild_disposition =
                (if download2 = Some ''true'' \<or> download2 = Some ''1''
                 then ''attachment'' else ''inline''),
              rebuild_quotation = rebuild_quotation p1,
              rebuild_inquiry = rebuild_inquiry p1,
              rebuild_data =
                preparePdfQuotationData (rebuild_quotation p1) (rebuild_inquiry p1) (clock ?w1'),
              rebuild_calledAt = clock ?w1'\<rparr>"
  have absent: "\<not> existsSync ?w1' (quotationsPath filename)"
    using assms keeps by (simp add: untilService_AwaitingService existsSync_def)
  have awaiting: "fst (untilService env filename download2 ?w1') = AwaitingService ?p2"
    using assms _ _ absent by (rule untilService_again) (simp_all add: keeps)
  then obtain w2 where
    second: "untilService env filename download2 ?w1' = (AwaitingService ?p2, w2)"
    by (cases "untilService env filename download2 ?w1'") simp
  have log2: "builderLog w2 = builderLog ?w1' @ [(rebuild_inquiry ?p2, rebuild_data ?p2)]"
    using untilService_builderLog [OF awaiting] second by simp
  have r: "run env [Resume 0, Elapse ms, Resume 1]
             ([Arrived filename download1, Arrived filename download2], w) =
           ([AwaitingService p1, AwaitingService ?p2], w2)"
    by (simp add: run_def first second)
  have "rebuildsInFlight (quotation_id (rebuild_quotation p1))
          [AwaitingService p1, AwaitingService ?p2] = 2"
    by (simp add: rebuildsInFlight_def)
  moreover have "builderLog w2 =
      builderLog w @
        [(rebuild_inquiry p1, rebuild_data p1),
         (rebuild_inquiry p1,
          preparePdfQuotationData (rebuild_quotation p1) (rebuild_inquiry p1) (clock w + ms))]"
    using log1 log2 keeps by simp
  ultimately show ?thesis
    unfolding r using keeps by simp
qed

theorem overlapping_requests_both_rebuild_witness:
  "fst (untilService sampleEnv ''quotation_INQ251031789_1700000600000.pdf'' None unsetWorld) =
     AwaitingService
       \<lparr>rebuild_filename = ''quotation_INQ251031789_1700000600000.pdf'',
        rebuild_disposition = ''inline'',
        rebuild_quotation = sampleQuotation\<lparr>quotationPdf := None\<rparr>,
        rebuild_inquiry = sampleInquiry,
        rebuild_data =
          preparePdfQuotationData (sampleQuotation\<lparr>quotationPdf := None\<rparr>) sampleInquiry
            1700000600000,
        rebuild_calledAt = 1700000600000\<rparr> \<and>
   rebuildsInFlight ''64b7f0c2a1d3e4f5a6b7c8e0''
     (fst (run sampleEnv [Resume 0, Elapse 20, Resume 1]
             ([Arrived ''quotation_INQ251031789_1700000600000.pdf'' None,
               Arrived ''quotation_INQ251031789_1700000600000.pdf'' (Some ''1'')],
              unsetWorld))) = 2 \<and>
   builderLog
     (snd (run sampleEnv [Resume 0, Elapse 20, Resume 1]
             ([Arrived ''quotation_INQ251031789_1700000600000.pdf'' None,
               Arrived ''quotation_INQ251031789_1700000600000.pdf'' (Some ''1'')],
              unsetWorld))) =
     [(sampleInquiry,
       preparePdfQuotationData (sampleQuotation\<lparr>quotationPdf := None\<rparr>) sampleInquiry
         1700000600000),
      (sampleInquiry,
       preparePdfQuotationData (sampleQuotation\<lparr>quotationPdf := None\<rparr>) sampleInquiry
         1700000600020)]"
proof -
  have a: "fst (untilService sampleEnv ''quotation_INQ251031789_1700000600000.pdf'' None
      unsetWorld) =
     AwaitingService
       \<lparr>rebuild_filename = ''quotation_INQ251031789_1700000600000.pdf'',
        rebuild_disposition = ''inline'',
        rebuild_quotation = sampleQuotation\<lparr>quotationPdf := None\<rparr>,
        rebuild_inquiry = sampleInquiry,
        rebuild_data =
          preparePdfQuotationData (sampleQuotation\<lparr>quotationPdf := None\<rparr>) sampleInquiry
            1700000600000,
        rebuild_calledAt = 1700000600000\<rparr>"
    by (simp add: overlap_defs locator_defs unsetWorld_def sample_defs Let_def)
  have b: "builderLog unsetWorld = []" "clock unsetWorld + 20 = 1700000600020"
    "quotation_id (sampleQuotation\<lparr>quotationPdf := None\<rparr>) = ''64b7f0c2a1d3e4f5a6b7c8e0''"
    by (simp_all add: unsetWorld_def sampleWorld_def sampleQuotation_def)
  show ?thesis
    using overlapping_requests_both_rebuild [OF a, of 20 "Some ''1''"] a b
    by (simp add: rebuildsInFlight_def)
qed

text \<open>
  C2 as stated fails. Two requests for the stored file name of the sample quotation,
  whose file is gone, arrive 50 ms apart, the second while the first is suspended at
  the service. Both find the quotation by exact match and both call the service: two
  rebuilds of one quotation are in flight, the service is called twice, and when both
  are resumed each is answered with the file of its own call.
\<close>

theorem two_rebuilds_in_flight:
  "builderLog sampleWorld = [] \<and>
   fst (run sampleEnv [Resume 0, Elapse 50, Resume 1]
          ([Arrived ''quotation-1700000000000-7421.pdf'' None,
            Arrived ''quotation-1700000000000-7421.pdf'' None], sampleWorld)) =
     [AwaitingService
        \<lparr>rebuild_filename = ''quotation-1700000000000-7421.pdf'',
         rebuild_disposition = ''inline'',
         rebuild_quotation = sampleQuotation,
         rebuild_inquiry = sampleInquiry,
         rebuild_data = preparePdfQuotationData sampleQuotation sampleInquiry 1700000600000,
         rebuild_calledAt = 1700000600000\<rparr>,
      AwaitingService
        \<lparr>rebuild_filename = ''quotation-1700000000000-7421.pdf'',
         rebuild_disposition = ''inline'',
         rebuild_quotation = sampleQuotation,
         rebuild_inquiry = sampleInquiry,
         rebuild_data = preparePdfQuotationData sampleQuotation sampleInquiry 1700000600050,
         rebuild_calledAt = 1700000600050\<rparr>] \<and>
   rebuildsInFlight ''64b7f0c2a1d3e4f5a6b7c8e0''
     (fst (run sampleEnv [Resume 0, Elapse 50, Resume 1]
             ([Arrived ''quotation-1700000000000-7421.pdf'' None,
               Arrived ''quotation-1700000000000-7421.pdf'' None], sampleWorld))) = 2 \<and>
   builderLog
     (snd (run sampleEnv [Resume 0, Elapse 50, Resume 1]
             ([Arrived ''quotation-1700000000000-7421.pdf'' None,
               Arrived ''quotation-1700000000000-7421.pdf'' None], sampleWorld))) =
     [(sampleInquiry, preparePdfQuotationData sampleQuotation sampleInquiry 1700000600000),
      (sampleInquiry, preparePdfQuotationData sampleQuotation sampleInquiry 1700000600050)] \<and>
   fst (run sampleEnv [Resume 0, Elapse 50, Resume 1, Resume 0, Resume 1]
          ([Arrived ''quotation-1700000000000-7421.pdf'' None,
            Arrived ''quotation-1700000000000-7421.pdf'' None], sampleWorld)) =
     [Responded
        (SendFile (pdfHeaders ''inline'' ''quotation_INQ251031789_1700000600000.pdf'')
           (quotationsPath ''quotation_INQ251031789_1700000600000.pdf'')),
      Responded
        (SendFile (pdfHeaders ''inline'' ''quotation_INQ251031789_1700000600050.pdf'')
           (quotationsPath ''quotation_INQ251031789_1700000600050.pdf''))] \<and>
   length
     (builderLog
        (snd (run sampleEnv [Resume 0, Elapse 50, Resume 1, Resume 0, Resume 1]
                ([Arrived ''quotation-1700000000000-7421.pdf'' None,
                  Arrived ''quotation-1700000000000-7421.pdf'' None], sampleWorld)))) = 2"
  unfolding both_suspended both_answered
  by (simp add: rebuildsInFlight_def sampleWorld_def sampleQuotation_def)

subsection \<open>The write-back of the file name\<close>

text \<open>
  What the handler does once the service has returned. When the file name chosen by the
  service differs from the requested file name, the generated file exists and the save
  is accepted, the stored \<open>quotationPdf\<close> of the quotation becomes the service's file
  name, the file is there when the document is written, and the file is sent. When the
  generated file does not exist, or the save is rejected, no stored document changes:
  the write-back never precedes the file.
\<close>

lemma write_back_follows_file:
  assumes "\<not> existsSync w (quotationsPath filename)"
    and "fst (locate filename w) = Found q"
    and "fst (findInquiry env q w) = Some inquiry"
    and "generateQuotationPDF env inquiry (preparePdfQuotationData q inquiry (clock w))
           (clock w) (files w) = Inr (pdf, fs)"
  shows
    "(fileName pdf \<noteq> filename \<and> filePath pdf \<in> fs \<and>
      saveError env (q\<lparr>quotationPdf := Some (fileName pdf)\<rparr>) = None \<longrightarrow>
        fst (handleQuotationPDF env filename download w) =
          SendFile
            (pdfHeaders (if download = Some ''true'' \<or> download = Some ''1''
                         then ''attachment'' else ''inline'') (fileName pdf))
            (filePath pdf) \<and>
        storedPdf (quotation_id q) (snd (handleQuotationPDF env filename download w)) =
          Some (Some (fileName pdf)) \<and>
        existsSync (snd (handleQuotationPDF env filename download w)) (filePath pdf)) \<and>
     (filePath pdf \<notin> fs \<or>
      saveError env (q\<lparr>quotationPdf := Some (fileName pdf)\<rparr>) \<noteq> None \<longrightarrow>
        quotations (snd (handleQuotationPDF env filename download w)) = quotations w)"
proof -
  let ?d = "if download = Some ''true'' \<or> download = Some ''1'' then ''attachment'' else ''inline''"
  let ?w1 = "ext w (fst (record_locator w filename))"
  have h: "handleQuotationPDF env filename download w = regenerate env filename ?d q ?w1"
    using assms(1,2) by (rule handle_regenerate)
  have fi: "fst (findInquiry env q ?w1) = Some inquiry"
    using assms(3) by simp
  have sv: "generateQuotationPDF env inquiry (preparePdfQuotationData q inquiry (clock ?w1))
           (clock ?w1) (files ?w1) = Inr (pdf, fs)"
    using assms(4) by simp
  note steps = regenerate_steps [OF fi sv, of filename ?d]
  have member: "q \<in> set (quotations w)"
    using assms(2) record_locator_member [of w filename q] by (simp add: locate_record_locator)
  show ?thesis
  proof (intro conjI impI)
    assume a: "fileName pdf \<noteq> filename \<and> filePath pdf \<in> fs \<and>
      saveError env (q\<lparr>quotationPdf := Some (fileName pdf)\<rparr>) = None"
    then have r: "fst (regenerate env filename ?d q ?w1) =
             SendFile (pdfHeaders ?d (fileName pdf)) (filePath pdf)"
      "quotations (snd (regenerate env filename ?d q ?w1)) =
             updateFirst (\<lambda>d. quotation_id d = quotation_id q)
               (\<lambda>d. d\<lparr>quotationPdf := Some (fileName pdf), updatedAt := clock w\<rparr>)
               (quotations w)"
      "files (snd (regenerate env filename ?d q ?w1)) = fs"
      using steps(4) by simp_all
    show "fst (handleQuotationPDF env filename download w) =
          SendFile (pdfHeaders ?d (fileName pdf)) (filePath pdf)"
      using h r(1) by simp
    obtain y where y: "find (\<lambda>d. quotation_id d = quotation_id q) (quotations w) = Some y"
      using find_member [OF member, of "\<lambda>d. quotation_id d = quotation_id q"] by auto
    have "find (\<lambda>d. quotation_id d = quotation_id q)
            (updateFirst (\<lambda>d. quotation_id d = quotation_id q)
               (\<lambda>d. d\<lparr>quotationPdf := Some (fileName pdf), updatedAt := clock w\<rparr>)
               (quotations w)) =
          Some (y\<lparr>quotationPdf := Some (fileName pdf), updatedAt := clock w\<rparr>)"
      using y by (simp add: find_updateFirst)
    then show "storedPdf (quotation_id q) (snd (handleQuotationPDF env filename download w)) =
          Some (Some (fileName pdf))"
      using h r(2) by (simp add: storedPdf_def)
    show "existsSync (snd (handleQuotationPDF env filename download w)) (filePath pdf)"
      using h r(3) a by (simp add: existsSync_def)
  next
    assume "filePath pdf \<notin> fs \<or>
      saveError env (q\<lparr>quotationPdf := Some (fileName pdf)\<rparr>) \<noteq> None"
    then show "quotations (snd (handleQuotationPDF env filename download w)) = quotations w"
      using h steps(1) steps(3) by auto
  qed
qed

lemma sample_service_result:
  "generateQuotationPDF sampleEnv sampleInquiry pdfData 1700000600000 {} =
     Inr (\<lparr>fileName = ''quotation_INQ251031789_1700000600000.pdf'',
            filePath = quotationsPath ''quotation_INQ251031789_1700000600000.pdf''\<rparr>,
          {quotationsPath ''quotation_INQ251031789_1700000600000.pdf''})"
  by (simp add: sampleEnv_def sampleService_def sampleInquiry_def decimal_clock quotationsPath_def
      Let_def)

lemma write_back_follows_file_sample:
  "\<not> existsSync sampleWorld (quotationsPath ''quotation-1700000000000-7421.pdf'') \<and>
   fst (locate ''quotation-1700000000000-7421.pdf'' sampleWorld) = Found sampleQuotation \<and>
   fst (findInquiry sampleEnv sampleQuotation sampleWorld) = Some sampleInquiry \<and>
   generateQuotationPDF sampleEnv sampleInquiry
     (preparePdfQuotationData sampleQuotation sampleInquiry (clock sampleWorld))
     (clock sampleWorld) (files sampleWorld) =
     Inr (\<lparr>fileName = ''quotation_INQ251031789_1700000600000.pdf'',
            filePath = quotationsPath ''quotation_INQ251031789_1700000600000.pdf''\<rparr>,
          {quotationsPath ''quotation_INQ251031789_1700000600000.pdf''}) \<and>
   saveError sampleEnv
     (sampleQuotation\<lparr>quotationPdf := Some ''quotation_INQ251031789_1700000600000.pdf''\<rparr>) = None \<and>
   fst (handleQuotationPDF sampleEnv ''quotation-1700000000000-7421.pdf'' None sampleWorld) =
     SendFile (pdfHeaders ''inline'' ''quotation_INQ251031789_1700000600000.pdf'')
       (quotationsPath ''quotation_INQ251031789_1700000600000.pdf'') \<and>
   storedPdf (quotation_id sampleQuotation)
     (snd (handleQuotationPDF sampleEnv ''quotation-1700000000000-7421.pdf'' None sampleWorld)) =
     Some (Some ''quotation_INQ251031789_1700000600000.pdf'') \<and>
   existsSync (snd (handleQuotationPDF sampleEnv ''quotation-1700000000000-7421.pdf'' None sampleWorld))
     (quotationsPath ''quotation_INQ251031789_1700000600000.pdf'')"
proof -
  have a: "\<not> existsSync sampleWorld (quotationsPath ''quotation-1700000000000-7421.pdf'')"
    by (simp add: existsSync_def sampleWorld_def)
  have b: "fst (locate ''quotation-1700000000000-7421.pdf'' sampleWorld) = Found sampleQuotation"
    by (simp add: locator_defs sample_defs)
  have c: "fst (findInquiry sampleEnv sampleQuotation sampleWorld) = Some sampleInquiry"
    by (simp add: handler_defs sample_defs)
  have cf: "clock sampleWorld = 1700000600000" "files sampleWorld = {}"
    by (simp_all add: sampleWorld_def)
  have d: "generateQuotationPDF sampleEnv sampleInquiry
     (preparePdfQuotationData sampleQuotation sampleInquiry (clock sampleWorld))
     (clock sampleWorld) (files sampleWorld) =
     Inr (\<lparr>fileName = ''quotation_INQ251031789_1700000600000.pdf'',
            filePath = quotationsPath ''quotation_INQ251031789_1700000600000.pdf''\<rparr>,
          {quotationsPath ''quotation_INQ251031789_1700000600000.pdf''})"
    unfolding cf by (rule sample_service_result)
  have e: "saveError sampleEnv
     (sampleQuotation\<lparr>quotationPdf := Some ''quotation_INQ251031789_1700000600000.pdf''\<rparr>) = None"
    by (simp add: sampleEnv_def)
  show ?thesis
    using write_back_follows_file [OF a b c d, of None] a b c d e by simp
qed

text \<open>
  C3 fails on the code at this request. The quotation has no stored file name; the
  request names the very file the service is about to write. The quotation is found
  through the inquiry number, the rebuild succeeds, the service's file name differs from
  the stored one (there is none), and yet the stored \<open>quotationPdf\<close> is not set: the
  handler compares the service's file name with the requested one, not with the stored
  one. The two are the same when the quotation was found by exact match, the only search
  of the earlier route.
\<close>

theorem pointer_not_written_when_names_coincide:
  "storedPdf ''64b7f0c2a1d3e4f5a6b7c8e0'' unsetWorld = Some None \<and>
   \<not> existsSync unsetWorld (quotationsPath ''quotation_INQ251031789_1700000600000.pdf'') \<and>
   fst (locate ''quotation_INQ251031789_1700000600000.pdf'' unsetWorld) =
     Found (sampleQuotation\<lparr>quotationPdf := None\<rparr>) \<and>
   generateQuotationPDF sampleEnv sampleInquiry
     (preparePdfQuotationData (sampleQuotation\<lparr>quotationPdf := None\<rparr>) sampleInquiry
        1700000600000)
     1700000600000 {} =
     Inr (\<lparr>fileName = ''quotation_INQ251031789_1700000600000.pdf'',
            filePath = quotationsPath ''quotation_INQ251031789_1700000600000.pdf''\<rparr>,
          {quotationsPath ''quotation_INQ251031789_1700000600000.pdf''}) \<and>
   fst (handleQuotationPDF sampleEnv ''quotation_INQ251031789_1700000600000.pdf'' None unsetWorld) =
     SendFile (pdfHeaders ''inline'' ''quotation_INQ251031789_1700000600000.pdf'')
       (quotationsPath ''quotation_INQ251031789_1700000600000.pdf'') \<and>
   storedPdf ''64b7f0c2a1d3e4f5a6b7c8e0''
     (snd (handleQuotationPDF sampleEnv ''quotation_INQ251031789_1700000600000.pdf'' None
        unsetWorld)) = Some None"
proof -
  have s0: "storedPdf ''64b7f0c2a1d3e4f5a6b7c8e0'' unsetWorld = Some None"
    by (simp add: storedPdf_def unsetWorld_def sample_defs)
  have a: "\<not> existsSync unsetWorld (quotationsPath ''quotation_INQ251031789_1700000600000.pdf'')"
    by (simp add: existsSync_def unsetWorld_def sampleWorld_def)
  have l: "fst (locate ''quotation_INQ251031789_1700000600000.pdf'' unsetWorld) =
     Found (sampleQuotation\<lparr>quotationPdf := None\<rparr>)"
    by (simp add: locator_defs unsetWorld_def sample_defs first_success_Cons)
  have h: "handleQuotationPDF sampleEnv ''quotation_INQ251031789_1700000600000.pdf'' None unsetWorld =
     (SendFile (pdfHeaders ''inline'' ''quotation_INQ251031789_1700000600000.pdf'')
       (quotationsPath ''quotation_INQ251031789_1700000600000.pdf''),
      unsetWorld
       \<lparr>files := {quotationsPath ''quotation_INQ251031789_1700000600000.pdf''},
        queryLog :=
          [QuotationFindOne (PdfEquals ''quotation_INQ251031789_1700000600000.pdf''),
           QuotationFindOne (PdfRegex (escapeRegExp ''quotation_INQ251031789_1700000600000.pdf'')),
           InquiryFindOne ''INQ251031789'',
           QuotationFindOne (InquiryIdEquals ''64b7f0c2a1d3e4f5a6b7c8d9''),
           InquiryFindById ''64b7f0c2a1d3e4f5a6b7c8d9''],
        builderLog :=
          [(sampleInquiry,
            preparePdfQuotationData (sampleQuotation\<lparr>quotationPdf := None\<rparr>) sampleInquiry
              1700000600000)]\<rparr>)"
    by (simp add: handler_defs locator_defs unsetWorld_def sample_defs first_success_Cons
        decimal_clock Let_def)
  have r1: "fst (handleQuotationPDF sampleEnv ''quotation_INQ251031789_1700000600000.pdf'' None
        unsetWorld) =
     SendFile (pdfHeaders ''inline'' ''quotation_INQ251031789_1700000600000.pdf'')
       (quotationsPath ''quotation_INQ251031789_1700000600000.pdf'')"
    by (simp add: h)
  have r2: "storedPdf ''64b7f0c2a1d3e4f5a6b7c8e0''
     (snd (handleQuotationPDF sampleEnv ''quotation_INQ251031789_1700000600000.pdf'' None
        unsetWorld)) = Some None"
    unfolding h by (simp add: storedPdf_def unsetWorld_def sample_defs)
  from s0 a l sample_service_result r1 r2 show ?thesis
    by (intro conjI)
qed

subsection \<open>The stored file name after a rebuild\<close>

text \<open>
  C4 fails on the code at this request. The quotation stores the name of a file that is
  gone; the request names the file the service is about to write, and the quotation is
  found through the inquiry number. The rebuild succeeds and the PDF is sent, but the
  stored \<open>quotationPdf\<close> is left as it was and names a file that does not exist.
\<close>

theorem stale_pointer_after_rebuild:
  "storedPdf ''64b7f0c2a1d3e4f5a6b7c8e0'' sampleWorld =
     Some (Some ''quotation-1700000000000-7421.pdf'') \<and>
   fst (handleQuotationPDF sampleEnv ''quotation_INQ251031789_1700000600000.pdf'' None sampleWorld) =
     SendFile (pdfHeaders ''inline'' ''quotation_INQ251031789_1700000600000.pdf'')
       (quotationsPath ''quotation_INQ251031789_1700000600000.pdf'') \<and>
   storedPdf ''64b7f0c2a1d3e4f5a6b7c8e0''
     (snd (handleQuotationPDF sampleEnv ''quotation_INQ251031789_1700000600000.pdf'' None
        sampleWorld)) = Some (Some ''quotation-1700000000000-7421.pdf'') \<and>
   \<not> existsSync
     (snd (handleQuotationPDF sampleEnv ''quotation_INQ251031789_1700000600000.pdf'' None
        sampleWorld))
     (quotationsPath ''quotation-1700000000000-7421.pdf'')"
proof -
  have h: "handleQuotationPDF sampleEnv ''quotation_INQ251031789_1700000600000.pdf'' None sampleWorld =
     (SendFile (pdfHeaders ''inline'' ''quotation_INQ251031789_1700000600000.pdf'')
       (quotationsPath ''quotation_INQ251031789_1700000600000.pdf''),
      sampleWorld
       \<lparr>files := {quotationsPath ''quotation_INQ251031789_1700000600000.pdf''},
        queryLog :=
          [QuotationFindOne (PdfEquals ''quotation_INQ251031789_1700000600000.pdf''),
           QuotationFindOne (PdfRegex (escapeRegExp ''quotation_INQ251031789_1700000600000.pdf'')),
           InquiryFindOne ''INQ251031789'',
           QuotationFindOne (InquiryIdEquals ''64b7f0c2a1d3e4f5a6b7c8d9''),
           InquiryFindById ''64b7f0c2a1d3e4f5a6b7c8d9''],
        builderLog :=
          [(sampleInquiry,
            preparePdfQuotationData sampleQuotation sampleInquiry 1700000600000)]\<rparr>)"
    by (simp add: handler_defs locator_defs sample_defs first_success_Cons decimal_clock Let_def)
  show ?thesis
    unfolding h by (simp add: storedPdf_def existsSync_def quotationsPath_def sample_defs)
qed

end
